theory Spec2Isabelle
  imports Complex_Main "HOL-Library.AList"
begin

section \<open>Conventions of the embedding\<close>

text \<open>
  The embedded program is \<^verbatim>\<open>funding_arbitrage_bot/core/arbitrage_engine.py\<close>, class
  \<^verbatim>\<open>ArbitrageEngine\<close>. Python floats are modelled as real numbers (no rounding, no NaN,
  no infinities); a division whose divisor is zero raises \<^verbatim>\<open>ZeroDivisionError\<close> in the
  source and is written out as a branch here. Logging and display calls have no effect on
  any value and are left out.

  A call that may raise is answered by a value of type \<open>'a py\<close>.
\<close>

datatype 'a py = Raised | Ok 'a

section \<open>Slippage analyzer: \<^verbatim>\<open>_analyze_orderbook\<close> (lines 348-500)\<close>

text \<open>
  One level of an orderbook side, by the shapes the source tells apart (lines 386-395):
  a dict with keys \<^verbatim>\<open>px\<close> and \<^verbatim>\<open>sz\<close>, a dict with keys \<^verbatim>\<open>price\<close> and \<^verbatim>\<open>size\<close>, a list, or
  anything else. A field is \<open>None\<close> when \<^verbatim>\<open>float(...)\<close> raises on it.
\<close>

datatype level =
    Px_sz "real option" "real option"
  | Price_size "real option" "real option"
  | Level_list "real option list"
  | Unrecognised

text \<open>An orderbook is a dict from side name to levels; the key order is the dict's.\<close>

type_synonym orderbook = "(string \<times> level list) list"

definition to_floats :: "real option \<Rightarrow> real option \<Rightarrow> (real \<times> real) option py" where
  "to_floats p s =
     (case p of None \<Rightarrow> Raised
      | Some a \<Rightarrow> (case s of None \<Rightarrow> Raised | Some b \<Rightarrow> Ok (Some (a, b))))"

text \<open>Lines 386-395: \<open>Ok None\<close> is the \<^verbatim>\<open>else\<close> branch, which only logs a warning.\<close>

fun level_entry :: "level \<Rightarrow> (real \<times> real) option py" where
  "level_entry (Px_sz p s) = to_floats p s"
| "level_entry (Price_size p s) = to_floats p s"
| "level_entry (Level_list (p # s # rest)) = to_floats p s"
| "level_entry (Level_list short) = Ok None"
| "level_entry Unrecognised = Ok None"

text \<open>Lines 383-395: the loop that fills \<^verbatim>\<open>book_side\<close>; \<open>None\<close> when a conversion raises.\<close>

fun convert_levels :: "level list \<Rightarrow> (real \<times> real) list option" where
  "convert_levels [] = Some []"
| "convert_levels (l # ls) =
     (case level_entry l of
        Raised \<Rightarrow> None
      | Ok e \<Rightarrow>
          (case convert_levels ls of
             None \<Rightarrow> None
           | Some es \<Rightarrow> Some (case e of None \<Rightarrow> es | Some x \<Rightarrow> x # es)))"

text \<open>
  Lines 403-408. Python's \<^verbatim>\<open>sorted\<close> is stable, also with \<^verbatim>\<open>reverse=True\<close>; so is
  \<open>sort_key\<close>, and sorting by the negated price gives the descending order.
\<close>

definition sort_book_side :: "string \<Rightarrow> (real \<times> real) list \<Rightarrow> (real \<times> real) list" where
  "sort_book_side side book_side =
     (if side = ''bids'' then sort_key (\<lambda>x. - fst x) book_side
      else sort_key fst book_side)"

text \<open>
  Lines 418-450: the walk over the sorted levels. The accumulator is
  \<open>(amount_filled, weighted_price, level_price)\<close>, the last component being the price of the
  level processed last; \<open>n\<close> is \<^verbatim>\<open>levels_checked\<close>. \<open>None\<close> is the \<^verbatim>\<open>ZeroDivisionError\<close> of
  \<^verbatim>\<open>remaining / level_price\<close>.
\<close>

fun walk_levels ::
  "real \<Rightarrow> (real \<times> real) list \<Rightarrow> nat \<Rightarrow> real \<times> real \<times> real \<Rightarrow> (real \<times> real \<times> real) option"
where
  "walk_levels amount_usd [] n acc = Some acc"
| "walk_levels amount_usd ((level_price, level_size) # rest) n (amount_filled, weighted_price, lp) =
     (let level_value = level_price * level_size in
      if amount_filled + level_value \<ge> amount_usd then
        (let remaining = amount_usd - amount_filled in
         if level_price = 0 then None
         else Some (amount_usd, weighted_price + level_price * (remaining / level_price), level_price))
      else if n + 1 \<ge> 10 then
        Some (amount_filled + level_value, weighted_price + level_price * level_size, level_price)
      else
        walk_levels amount_usd rest (n + 1)
          (amount_filled + level_value, weighted_price + level_price * level_size, level_price))"

text \<open>
  Lines 452-494, after the walk. Every \<open>1 / 10\<close> below that is not the \<^verbatim>\<open>else\<close> of line 474
  is the handler of line 496 (a division by zero, or arithmetic on a \<^verbatim>\<open>None\<close> price).
\<close>

definition slippage_of_fill ::
  "string \<Rightarrow> real \<Rightarrow> real option \<Rightarrow> real \<times> real \<times> real \<Rightarrow> real" where
  "slippage_of_fill side amount_usd price acc =
     (case acc of (amount_filled, weighted_price, level_price) \<Rightarrow>
      if amount_filled < amount_usd \<and> amount_usd = 0 then 1 / 10
      else if amount_filled < amount_usd \<and> \<not> (amount_filled / amount_usd * 100 \<ge> 80) then
        min (2 / 10) ((100 - amount_filled / amount_usd * 100) / 100)
      else if amount_filled > 0 then
        (if level_price = 0 then 1 / 10
         else
           (let average_price = weighted_price / (amount_filled / level_price) in
            case price of
              None \<Rightarrow> 1 / 10
            | Some pr \<Rightarrow>
                if pr = 0 then 1 / 10
                else
                  (let slippage =
                         (if side = ''bids'' then (pr - average_price) / pr * 100
                          else (average_price - pr) / pr * 100)
                   in max (1 / 100) (min (5 / 10) \<bar>slippage\<bar>))))
      else 1 / 10)"

text \<open>
  The whole function. \<open>orderbook = None\<close> is Python's \<^verbatim>\<open>None\<close>; \<open>amount_usd = None\<close> and
  \<open>price = None\<close> stand for a value on which the arithmetic raises \<^verbatim>\<open>TypeError\<close>.
\<close>

definition analyze_orderbook ::
  "orderbook option \<Rightarrow> string \<Rightarrow> real option \<Rightarrow> real option \<Rightarrow> real" where
  "analyze_orderbook orderbook side amount_usd price =
     (case orderbook of
        None \<Rightarrow> 1 / 10
      | Some ob \<Rightarrow>
          if ob = [] then 1 / 10
          else
            (case map_of ob side of
               None \<Rightarrow> 1 / 10
             | Some levels \<Rightarrow>
                 if levels = [] then 1 / 10
                 else
                   (case convert_levels levels of
                      None \<Rightarrow> 1 / 10
                    | Some book_side \<Rightarrow>
                        if book_side = [] then 1 / 10
                        else
                          (case amount_usd of
                             None \<Rightarrow> 1 / 10
                           | Some amount \<Rightarrow>
                               (case walk_levels amount (sort_book_side side book_side) 0 (0, 0, 0) of
                                  None \<Rightarrow> 1 / 10
                                | Some acc \<Rightarrow> slippage_of_fill side amount price acc)))))"

text \<open>
  The structural defects of an input, in the words of the specification: no orderbook, an
  empty orderbook, a missing or empty requested side, or levels of unrecognised shape. A
  level has an unrecognised shape when it takes the \<^verbatim>\<open>else\<close> branch of line 394.
\<close>

fun unrecognised_shape :: "level \<Rightarrow> bool" where
  "unrecognised_shape (Px_sz p s) = False"
| "unrecognised_shape (Price_size p s) = False"
| "unrecognised_shape (Level_list (p # s # rest)) = False"
| "unrecognised_shape (Level_list short) = True"
| "unrecognised_shape Unrecognised = True"

definition no_recognised_level :: "orderbook option \<Rightarrow> string \<Rightarrow> bool" where
  "no_recognised_level orderbook side =
     (case orderbook of
        None \<Rightarrow> True
      | Some ob \<Rightarrow>
          (case map_of ob side of
             None \<Rightarrow> True
           | Some levels \<Rightarrow> list_all unrecognised_shape levels))"

definition recognised_levels :: "level list \<Rightarrow> level list" where
  "recognised_levels levels = filter (\<lambda>l. \<not> unrecognised_shape l) levels"

section \<open>Helpers imported from \<^verbatim>\<open>utils.helpers\<close>\<close>

text \<open>
  The engine imports \<^verbatim>\<open>calculate_funding_diff\<close>, \<^verbatim>\<open>get_backpack_symbol\<close> and
  \<^verbatim>\<open>get_hyperliquid_symbol\<close> from a module that is not part of the sources at hand. The
  engine's functions take them as a parameter \<open>h\<close>, so that what is proved of the engine
  holds whatever the helpers compute.
\<close>

record helpers =
  calculate_funding_diff :: "real \<Rightarrow> real \<Rightarrow> real \<times> int"
  get_backpack_symbol :: "string \<Rightarrow> string"
  get_hyperliquid_symbol :: "string \<Rightarrow> string"

text \<open>
  Modelled from the spec: \<^verbatim>\<open>calculate_funding_diff\<close>, absent from the sources. The
  specification defines the funding difference as the venue-A rate minus the normalised
  venue-B rate and normalises B "by multiplying by N (configured, default 8) before
  comparison"; the evaluator (line 545) hands the helper the raw 1-hour rate, so the helper
  of the specification multiplies by 8 itself. Stored signs are never 0 (invariant I1), and
  the engine's own sign idiom is \<^verbatim>\<open>1 if x > 0 else -1\<close>.
\<close>

definition normalised_funding_diff :: "real \<Rightarrow> real \<Rightarrow> real \<times> int" where
  "normalised_funding_diff bp_funding hl_funding =
     (let diff = bp_funding - hl_funding * 8 in (diff, if diff > 0 then 1 else - 1))"

text \<open>
  Modelled from the spec: \<^verbatim>\<open>get_backpack_symbol\<close> and \<^verbatim>\<open>get_hyperliquid_symbol\<close>, absent
  from the sources: the "pure transforms" to the venue-specific forms of a symbol. The
  engine's comments give \<^verbatim>\<open>BTC_USDC_PERP\<close> as the Backpack form of \<^verbatim>\<open>BTC\<close> (lines 730, 1111)
  and use the base symbol itself as the key of Hyperliquid positions (line 549).
\<close>

definition usdc_perp_symbol :: "string \<Rightarrow> string" where
  "usdc_perp_symbol symbol = symbol @ ''_USDC_PERP''"

definition spec_helpers :: helpers where
  "spec_helpers =
     \<lparr>calculate_funding_diff = normalised_funding_diff,
      get_backpack_symbol = usdc_perp_symbol,
      get_hyperliquid_symbol = (\<lambda>symbol. symbol)\<rparr>"

section \<open>Sign store: the dict in memory and the file\<close>

text \<open>A Python dict from symbol to sign, in insertion order.\<close>

type_synonym signs = "(string \<times> int) list"

text \<open>
  The part of the engine's state that the evaluator and the executor write:
  \<^verbatim>\<open>self.funding_diff_signs\<close>, \<^verbatim>\<open>self.price_diff_signs\<close> (\<open>None\<close> while the attribute does
  not exist), the path \<^verbatim>\<open>self.funding_signs_file\<close> and the files on disk (path to content).
\<close>

record engine =
  funding_diff_signs :: signs
  price_diff_signs :: "signs option"
  funding_signs_file :: string
  files :: "string \<Rightarrow> string option"

text \<open>
  The text that \<^verbatim>\<open>json.dump\<close> writes for such a dict, with the default separators. Of the
  escapes of a key only the quote and the backslash are modelled.
\<close>

fun decimal :: "nat \<Rightarrow> string" where
  "decimal n =
     (if n < 10 then [''0123456789'' ! n]
      else decimal (n div 10) @ [''0123456789'' ! (n mod 10)])"

declare decimal.simps [simp del]

definition json_int :: "int \<Rightarrow> string" where
  "json_int i = (if i < 0 then CHR ''-'' # decimal (nat (- i)) else decimal (nat i))"

definition json_escape :: "char \<Rightarrow> string" where
  "json_escape c =
     (if c = CHR 0x22 then [CHR 0x5C, CHR 0x22]
      else if c = CHR 0x5C then [CHR 0x5C, CHR 0x5C]
      else [c])"

definition json_string :: "string \<Rightarrow> string" where
  "json_string s = CHR 0x22 # concat (map json_escape s) @ [CHR 0x22]"

fun json_items :: "signs \<Rightarrow> string" where
  "json_items [] = []"
| "json_items [(k, v)] = json_string k @ '': '' @ json_int v"
| "json_items ((k, v) # rest) = json_string k @ '': '' @ json_int v @ '', '' @ json_items rest"

definition json_dumps :: "signs \<Rightarrow> string" where
  "json_dumps signs = ''{'' @ json_items signs @ ''}''"

text \<open>
  What a persist does to the disk, one operation at a time. \<open>Rename\<close> is never issued by
  the engine; it is here for the protocol the specification describes.
\<close>

datatype file_op =
    Open_for_writing string
  | Write_text string string
  | Rename string string

fun apply_file_op :: "file_op \<Rightarrow> (string \<Rightarrow> string option) \<Rightarrow> (string \<Rightarrow> string option)" where
  "apply_file_op (Open_for_writing path) fs = fs(path \<mapsto> [])"
| "apply_file_op (Write_text path text) fs =
     (case fs path of None \<Rightarrow> fs | Some written \<Rightarrow> fs(path \<mapsto> written @ text))"
| "apply_file_op (Rename src dst) fs =
     (case fs src of None \<Rightarrow> fs | Some content \<Rightarrow> (fs(src := None))(dst \<mapsto> content))"

definition run_file_ops :: "file_op list \<Rightarrow> (string \<Rightarrow> string option) \<Rightarrow> (string \<Rightarrow> string option)" where
  "run_file_ops ops fs = fold apply_file_op ops fs"

text \<open>
  \<^verbatim>\<open>_save_funding_diff_signs\<close> (lines 213-222): \<^verbatim>\<open>open(self.funding_signs_file, 'w')\<close>, which
  truncates or creates the file, then \<^verbatim>\<open>json.dump\<close> into it. The operations are assumed to
  succeed; the handler of line 221 only logs.
\<close>

definition save_funding_diff_signs_ops :: "string \<Rightarrow> signs \<Rightarrow> file_op list" where
  "save_funding_diff_signs_ops file signs =
     [Open_for_writing file, Write_text file (json_dumps signs)]"

definition save_funding_diff_signs :: "engine \<Rightarrow> engine" where
  "save_funding_diff_signs st =
     st\<lparr>files :=
          run_file_ops
            (save_funding_diff_signs_ops (funding_signs_file st) (funding_diff_signs st))
            (files st)\<rparr>"

text \<open>
  The protocol of the specification, in its words: "Atomic write (write-temp + rename)".
\<close>

definition write_temp_rename_ops :: "string \<Rightarrow> string \<Rightarrow> signs \<Rightarrow> file_op list" where
  "write_temp_rename_ops temp file signs =
     [Open_for_writing temp, Write_text temp (json_dumps signs), Rename temp file]"

text \<open>
  A persist interrupted after its first \<open>k\<close> operations, and what atomicity asks of the
  sign file then: it holds what it held before, or the complete new text.
\<close>

definition interrupted :: "nat \<Rightarrow> file_op list \<Rightarrow> (string \<Rightarrow> string option) \<Rightarrow> (string \<Rightarrow> string option)" where
  "interrupted k ops fs = run_file_ops (take k ops) fs"

definition old_or_new :: "string \<Rightarrow> signs \<Rightarrow> (string \<Rightarrow> string option) \<Rightarrow> (string \<Rightarrow> string option) \<Rightarrow> bool" where
  "old_or_new file signs before after =
     (after file = before file \<or> after file = Some (json_dumps signs))"

section \<open>Configuration, positions and candidates\<close>

text \<open>
  The configuration is a nested dict; a field read with \<^verbatim>\<open>get(key, default)\<close> is an
  option here, \<open>None\<close> when the key is absent, and \<open>get_or\<close> supplies the default.
\<close>

definition get_or :: "'a option \<Rightarrow> 'a \<Rightarrow> 'a" where
  "get_or v d = (case v of None \<Rightarrow> d | Some x \<Rightarrow> x)"

record trading_pair =
  tp_symbol :: string
  tp_max_position_size :: "real option"
  tp_min_volume :: "real option"
  tp_price_precision :: "int option"
  tp_tick_size :: "real option"

record open_conditions =
  oc_condition_type :: "string option"
  oc_min_funding_diff :: "real option"
  oc_min_price_diff_percent :: "real option"
  oc_max_price_diff_percent :: "real option"
  oc_max_slippage_percent :: "real option"
  oc_ignore_high_slippage :: "bool option"
  oc_check_direction_consistency :: "bool option"

record close_conditions =
  cc_condition_type :: "string option"
  cc_funding_diff_sign_change :: "bool option"
  cc_price_diff_sign_change :: "bool option"
  cc_min_funding_diff :: "real option"
  cc_min_profit_percent :: "real option"
  cc_max_close_slippage_percent :: "real option"
  cc_ignore_close_slippage :: "bool option"
  cc_check_direction_consistency :: "bool option"

text \<open>
  \<open>trading_pairs\<close> is \<^verbatim>\<open>config.get("trading_pairs", [])\<close>, the list at the top level of the
  configuration, which is the one the evaluator and the executor read (lines 751, 1060);
  \<open>strategy_trading_pairs\<close> is \<^verbatim>\<open>config["strategy"].get("trading_pairs", [])\<close>, which only
  the constructor reads (line 109). The other fields are under \<^verbatim>\<open>config["strategy"]\<close>.
\<close>

record config =
  trading_pairs :: "trading_pair list"
  strategy_trading_pairs :: "trading_pair list"
  strategy_open_conditions :: open_conditions
  strategy_close_conditions :: close_conditions
  strategy_max_positions_count :: "int option"
  strategy_position_sizes :: "(string \<times> real) list"

text \<open>
  A position as a venue reports it: a dict of which the engine reads \<^verbatim>\<open>symbol\<close>, \<^verbatim>\<open>side\<close>,
  \<^verbatim>\<open>size\<close> and \<^verbatim>\<open>quantity\<close>; a field is \<open>None\<close> when the key is absent. The positions of a
  venue are a dict from the venue's symbol to the position.
\<close>

record position =
  p_symbol :: "string option"
  p_side :: "string option"
  p_size :: "real option"
  p_quantity :: "real option"

type_synonym positions = "(string \<times> position) list"

text \<open>The position object of a close candidate (lines 1024-1031).\<close>

record position_pair =
  bp_symbol :: string
  hl_symbol :: string
  bp_side :: string
  hl_side :: string
  bp_size :: real
  hl_size :: real

datatype open_reason =
    Has_position
  | Slippage_too_high
  | Global_position_limit
  | No_trading_pair_config
  | Position_size_limit
  | Price_or_funding_met
  | Price_and_funding_met
  | Funding_met
  | Price_met
  | Empty_reason

datatype close_reason =
    Close_slippage_too_high
  | Funding_sign_reversed
  | Price_sign_reversed
  | Price_diff_converged
  | Funding_and_price_met
  | Empty_close_reason

record open_candidate =
  oc_symbol :: string
  oc_funding_diff :: real
  oc_bp_funding :: real
  oc_hl_funding :: real
  oc_available_size :: "real option"
  oc_reason :: open_reason

record close_candidate =
  cl_symbol :: string
  cl_position :: position_pair
  cl_reason :: close_reason

text \<open>The sign idiom of the engine: \<^verbatim>\<open>1 if x > 0 else -1\<close>.\<close>

definition sign_of :: "real \<Rightarrow> int" where
  "sign_of x = (if x > 0 then 1 else - 1)"

section \<open>Opportunity evaluator: the open decision (lines 670-840)\<close>

text \<open>Lines 776-783: the price-band and the funding condition.\<close>

definition price_condition_met :: "open_conditions \<Rightarrow> real \<Rightarrow> bool" where
  "price_condition_met oc price_diff_percent =
     (get_or (oc_min_price_diff_percent oc) (2 / 10) \<le> \<bar>price_diff_percent\<bar> \<and>
      \<bar>price_diff_percent\<bar> \<le> get_or (oc_max_price_diff_percent oc) 1)"

definition funding_condition_met :: "open_conditions \<Rightarrow> real \<Rightarrow> bool" where
  "funding_condition_met oc funding_diff =
     (\<bar>funding_diff\<bar> \<ge> get_or (oc_min_funding_diff oc) (1 / 100000))"

text \<open>Lines 792-808: the direction is compared only when both conditions above hold.\<close>

definition direction_consistent :: "open_conditions \<Rightarrow> real \<Rightarrow> real \<Rightarrow> bool" where
  "direction_consistent oc price_diff_percent funding_diff =
     (if get_or (oc_check_direction_consistency oc) False
         \<and> price_condition_met oc price_diff_percent
         \<and> funding_condition_met oc funding_diff
      then sign_of price_diff_percent = sign_of funding_diff
      else True)"

text \<open>Lines 810-829.\<close>

definition should_open :: "open_conditions \<Rightarrow> real \<Rightarrow> real \<Rightarrow> bool \<times> open_reason" where
  "should_open oc price_diff_percent funding_diff =
     (let condition_type = get_or (oc_condition_type oc) ''funding_only'';
          price_ok = price_condition_met oc price_diff_percent;
          funding_ok = funding_condition_met oc funding_diff;
          direction_ok = direction_consistent oc price_diff_percent funding_diff
      in
        if condition_type = ''any'' then ((price_ok \<or> funding_ok) \<and> direction_ok, Price_or_funding_met)
        else if condition_type = ''all'' then (price_ok \<and> funding_ok \<and> direction_ok, Price_and_funding_met)
        else if condition_type = ''funding_only'' then (funding_ok \<and> direction_ok, Funding_met)
        else if condition_type = ''price_only'' then (price_ok \<and> direction_ok, Price_met)
        else (False, Empty_reason))"

text \<open>Lines 725-737: the number of distinct base symbols held on either venue.\<close>

definition position_symbols :: "positions \<Rightarrow> positions \<Rightarrow> string list" where
  "position_symbols bp_positions hl_positions =
     remdups (map (\<lambda>pos_symbol. takeWhile (\<lambda>c. c \<noteq> CHR ''_'') pos_symbol) (map fst bp_positions)
              @ map fst hl_positions)"

text \<open>
  \<^verbatim>\<open>_check_open_conditions_without_execution\<close>. The parameters \<^verbatim>\<open>bp_price\<close>, \<^verbatim>\<open>hl_price\<close>,
  \<^verbatim>\<open>bp_funding\<close> and \<^verbatim>\<open>adjusted_hl_funding\<close> are not read by the body and are left out.
  \<open>total_slippage\<close> is what the market data of the data manager hold for the symbol under
  the key \<^verbatim>\<open>total_slippage\<close>, \<open>None\<close> when there is no such entry (line 713). The result is
  the tuple \<^verbatim>\<open>(should_open, reason, available_size)\<close>.
\<close>

definition check_open_conditions_without_execution ::
  "helpers \<Rightarrow> config \<Rightarrow> real option \<Rightarrow> string \<Rightarrow> real \<Rightarrow> real \<Rightarrow> positions \<Rightarrow> positions
     \<Rightarrow> bool \<times> open_reason \<times> real option" where
  "check_open_conditions_without_execution h cfg total_slippage symbol price_diff_percent
       funding_diff bp_positions hl_positions =
     (let has_position =
            (get_backpack_symbol h symbol \<in> set (map fst bp_positions)
             \<or> symbol \<in> set (map fst hl_positions))
      in
      if has_position then (False, Has_position, Some 0)
      else
        (let oc = strategy_open_conditions cfg;
             max_slippage = get_or (oc_max_slippage_percent oc) (15 / 100);
             ignore_slippage = get_or (oc_ignore_high_slippage oc) False;
             slippage_condition_met =
               (ignore_slippage \<or> get_or total_slippage (5 / 10) \<le> max_slippage)
         in
         if \<not> slippage_condition_met then (False, Slippage_too_high, Some 0)
         else if int (length (position_symbols bp_positions hl_positions))
                   \<ge> get_or (strategy_max_positions_count cfg) 5
         then (False, Global_position_limit, None)
         else
           (let current_size = 0 in
            case find (\<lambda>pair. tp_symbol pair = symbol) (trading_pairs cfg) of
              None \<Rightarrow> (False, No_trading_pair_config, None)
            | Some trading_pair_config \<Rightarrow>
                (let max_position_size = get_or (tp_max_position_size trading_pair_config) 0 in
                 if current_size \<ge> max_position_size then (False, Position_size_limit, None)
                 else
                   (let available_size = max_position_size - current_size in
                    if \<not> slippage_condition_met then (False, Slippage_too_high, Some 0)
                    else
                      (case should_open oc price_diff_percent funding_diff of
                         (decision, reason) \<Rightarrow> (decision, reason, Some available_size)))))))"

section \<open>Opportunity evaluator: the close decision (lines 842-1033)\<close>

text \<open>Lines 886-915: the stored signs, and the lazy record of a missing price sign.\<close>

definition funding_sign_changed :: "engine \<Rightarrow> string \<Rightarrow> int \<Rightarrow> bool" where
  "funding_sign_changed st symbol funding_diff_sign =
     (case map_of (funding_diff_signs st) symbol of
        None \<Rightarrow> False
      | Some entry_funding_diff_sign \<Rightarrow> entry_funding_diff_sign \<noteq> funding_diff_sign)"

definition record_price_sign :: "engine \<Rightarrow> string \<Rightarrow> int \<Rightarrow> engine \<times> int option" where
  "record_price_sign st symbol price_diff_sign =
     (let entry_price_diff_sign =
            (case price_diff_signs st of None \<Rightarrow> None | Some signs \<Rightarrow> map_of signs symbol);
          st1 = (case price_diff_signs st of None \<Rightarrow> st\<lparr>price_diff_signs := Some []\<rparr> | Some signs \<Rightarrow> st)
      in
        if entry_price_diff_sign = None \<and> symbol \<in> set (map fst (funding_diff_signs st1)) then
          (st1\<lparr>price_diff_signs :=
                  Some (AList.update symbol price_diff_sign (get_or (price_diff_signs st1) []))\<rparr>,
           Some price_diff_sign)
        else (st1, entry_price_diff_sign))"

text \<open>Lines 945-962.\<close>

definition close_funding_condition_met :: "close_conditions \<Rightarrow> bool \<Rightarrow> real \<Rightarrow> bool" where
  "close_funding_condition_met cc sign_changed funding_diff =
     ((sign_changed \<and> get_or (cc_funding_diff_sign_change cc) True)
      \<and> \<bar>funding_diff\<bar> \<ge> get_or (cc_min_funding_diff cc) (5 / 1000000))"

definition close_price_condition_met :: "close_conditions \<Rightarrow> bool \<Rightarrow> real \<Rightarrow> bool" where
  "close_price_condition_met cc price_sign_changed price_diff_percent =
     (if get_or (cc_price_diff_sign_change cc) False
      then price_sign_changed \<and> \<bar>price_diff_percent\<bar> \<ge> get_or (cc_min_profit_percent cc) (1 / 10)
      else \<bar>price_diff_percent\<bar> < get_or (cc_min_profit_percent cc) (1 / 10))"

text \<open>Lines 981-1010.\<close>

definition should_close ::
  "close_conditions \<Rightarrow> bool \<Rightarrow> bool \<Rightarrow> real \<Rightarrow> real \<Rightarrow> bool \<times> close_reason" where
  "should_close cc funding_changed price_changed price_diff_percent funding_diff =
     (let condition_type = get_or (cc_condition_type cc) ''any'';
          funding_ok = close_funding_condition_met cc funding_changed funding_diff;
          price_ok = close_price_condition_met cc price_changed price_diff_percent;
          direction_ok =
            (if get_or (cc_check_direction_consistency cc) False \<and> price_ok \<and> funding_ok
             then sign_of price_diff_percent = sign_of funding_diff
             else True);
          price_reason =
            (if get_or (cc_price_diff_sign_change cc) False then Price_sign_reversed
             else Price_diff_converged)
      in
        if condition_type = ''any'' then
          (if funding_ok \<and> direction_ok then (True, Funding_sign_reversed)
           else if price_ok \<and> direction_ok then (True, price_reason)
           else (False, Empty_close_reason))
        else if condition_type = ''all'' then
          (funding_ok \<and> price_ok \<and> direction_ok, Funding_and_price_met)
        else if condition_type = ''funding_only'' then
          (funding_ok \<and> direction_ok, Funding_sign_reversed)
        else if condition_type = ''price_only'' then (price_ok \<and> direction_ok, price_reason)
        else (False, Empty_close_reason))"

text \<open>
  \<^verbatim>\<open>_check_close_conditions_without_execution\<close>, without the parameters its body does not
  read. The result is the new state and the tuple \<^verbatim>\<open>(should_close, reason, position)\<close>, or
  \<open>Raised\<close> for the \<^verbatim>\<open>KeyError\<close> of a position without \<^verbatim>\<open>side\<close> or \<^verbatim>\<open>size\<close> (lines 1027-1030).
\<close>

definition check_close_conditions_without_execution ::
  "helpers \<Rightarrow> config \<Rightarrow> engine \<Rightarrow> real option \<Rightarrow> string \<Rightarrow> position \<Rightarrow> position
     \<Rightarrow> real \<Rightarrow> real \<Rightarrow> int \<Rightarrow> engine \<times> (bool \<times> close_reason \<times> position_pair option) py" where
  "check_close_conditions_without_execution h cfg st total_slippage symbol bp_position hl_position
       price_diff_percent funding_diff funding_diff_sign =
     (let cc = strategy_close_conditions cfg;
          price_diff_sign = sign_of price_diff_percent;
          funding_changed = funding_sign_changed st symbol funding_diff_sign
      in
      case record_price_sign st symbol price_diff_sign of
        (st1, entry_price_diff_sign) \<Rightarrow>
          (let price_changed =
                 (case entry_price_diff_sign of None \<Rightarrow> False | Some e \<Rightarrow> e \<noteq> price_diff_sign);
               slippage_condition_met =
                 (get_or (cc_ignore_close_slippage cc) False
                  \<or> get_or total_slippage (5 / 10) \<le> get_or (cc_max_close_slippage_percent cc) (25 / 100))
           in
           if \<not> slippage_condition_met then (st1, Ok (False, Close_slippage_too_high, None))
           else
             (case should_close cc funding_changed price_changed price_diff_percent funding_diff of
                (decision, reason) \<Rightarrow>
                  (case (p_side bp_position, p_side hl_position, p_size bp_position, p_size hl_position) of
                     (Some bside, Some hside, Some bsize, Some hsize) \<Rightarrow>
                       (st1,
                        Ok (decision, reason,
                            Some \<lparr>bp_symbol = get_backpack_symbol h symbol, hl_symbol = symbol,
                                  bp_side = bside, hl_side = hside,
                                  bp_size = bsize, hl_size = hsize\<rparr>))
                   | _ \<Rightarrow> (st1, Raised)))))"

section \<open>Opportunity evaluator: \<^verbatim>\<open>_collect_arbitrage_opportunity\<close> (lines 502-668)\<close>

text \<open>
  What the data manager answers for the symbol: the snapshot of \<^verbatim>\<open>get_data\<close> (or an
  exception), the verdict of \<^verbatim>\<open>is_data_valid\<close>, and the \<^verbatim>\<open>total_slippage\<close> its market data
  hold when the conditions are checked. Lines 551-600 compute the slippage of both legs with
  \<open>analyze_orderbook\<close> and store the sum in the market data of the data manager; whether the
  later read of line 713 sees that value is the data manager's business, so the value read
  is an input here.
\<close>

record snapshot =
  d_bp_price :: real
  d_bp_funding :: real
  d_hl_price :: real
  d_hl_funding :: real

record market =
  data :: "snapshot py"
  data_valid :: bool
  market_total_slippage :: "real option"

text \<open>
  The result is the state and the two candidate lists, which the source extends in place.
  Every exception ends the function in the handler of line 667, which only logs.
\<close>

definition collect_arbitrage_opportunity ::
  "helpers \<Rightarrow> config \<Rightarrow> market \<Rightarrow> engine \<Rightarrow> string \<Rightarrow> open_candidate list \<Rightarrow> close_candidate list
     \<Rightarrow> positions \<Rightarrow> positions \<Rightarrow> engine \<times> open_candidate list \<times> close_candidate list" where
  "collect_arbitrage_opportunity h cfg m st symbol open_candidates close_candidates
       bp_positions hl_positions =
     (case data m of
        Raised \<Rightarrow> (st, open_candidates, close_candidates)
      | Ok d \<Rightarrow>
          if \<not> data_valid m then (st, open_candidates, close_candidates)
          else
            (let adjusted_hl_funding = d_hl_funding d * 8 in
             if d_hl_price d = 0 then (st, open_candidates, close_candidates)
             else
               (let price_diff_percent = (d_bp_price d - d_hl_price d) / d_hl_price d * 100 in
                case calculate_funding_diff h (d_bp_funding d) (d_hl_funding d) of
                  (funding_diff, funding_diff_sign) \<Rightarrow>
                    (let has_position =
                           (get_backpack_symbol h symbol \<in> set (map fst bp_positions)
                            \<or> symbol \<in> set (map fst hl_positions))
                     in
                     if \<not> has_position then
                       (case check_open_conditions_without_execution h cfg (market_total_slippage m)
                               symbol price_diff_percent funding_diff bp_positions hl_positions of
                          (decision, reason, available_size) \<Rightarrow>
                            if decision then
                              (st,
                               open_candidates @
                                 [\<lparr>oc_symbol = symbol, oc_funding_diff = funding_diff,
                                   oc_bp_funding = d_bp_funding d, oc_hl_funding = adjusted_hl_funding,
                                   oc_available_size = available_size, oc_reason = reason\<rparr>],
                               close_candidates)
                            else (st, open_candidates, close_candidates))
                     else
                       (case (map_of bp_positions (get_backpack_symbol h symbol),
                              map_of hl_positions symbol) of
                          (Some bp_position, Some hl_position) \<Rightarrow>
                            (case check_close_conditions_without_execution h cfg st
                                    (market_total_slippage m) symbol bp_position hl_position
                                    price_diff_percent funding_diff funding_diff_sign of
                               (st1, Raised) \<Rightarrow> (st1, open_candidates, close_candidates)
                             | (st1, Ok (decision, reason, pos)) \<Rightarrow>
                                 (case pos of
                                    Some pair \<Rightarrow>
                                      if decision then
                                        (st1, open_candidates,
                                         close_candidates @
                                           [\<lparr>cl_symbol = symbol, cl_position = pair,
                                             cl_reason = reason\<rparr>])
                                      else (st1, open_candidates, close_candidates)
                                  | None \<Rightarrow> (st1, open_candidates, close_candidates)))
                        | _ \<Rightarrow> (st, open_candidates, close_candidates))))))"

section \<open>Paired executor: what it sees and what it does\<close>

datatype side = BUY | SELL

datatype order_type = MARKET | LIMIT

datatype venue = Backpack | Hyperliquid

record order =
  o_symbol :: string
  o_side :: side
  o_size :: real
  o_price :: "real option"
  o_type :: order_type

text \<open>The calls on the venues that change positions, in the order they are issued.\<close>

datatype api_call =
    Place_order venue order
  | Close_position venue string

text \<open>The three ways the executor's functions end: \<^verbatim>\<open>return True\<close>, \<^verbatim>\<open>return False\<close>, \<^verbatim>\<open>return\<close>.\<close>

datatype ret = Returned_True | Returned_False | Returned_None

text \<open>
  The answer of Hyperliquid to an order, by what lines 1194-1226 read of it: an exception,
  something that is no dict, or a dict with its \<^verbatim>\<open>success\<close> flag and its \<^verbatim>\<open>raw_response\<close>, if
  any, which \<^verbatim>\<open>json.dumps\<close> turns into text or rejects.
\<close>

datatype raw_response = Serialisable string | Not_serialisable

datatype hl_order_result =
    Hl_exception
  | Hl_no_dict
  | Hl_dict bool "raw_response option"

fun contains :: "string \<Rightarrow> string \<Rightarrow> bool" where
  "contains needle [] = (needle = [])"
| "contains needle (c # cs) = (take (length needle) (c # cs) = needle \<or> contains needle cs)"

text \<open>\<^verbatim>\<open>hl_success\<close>, or the \<^verbatim>\<open>TypeError\<close> of \<^verbatim>\<open>json.dumps\<close> (line 1209).\<close>

fun hl_order_success :: "hl_order_result \<Rightarrow> bool py" where
  "hl_order_success Hl_exception = Ok False"
| "hl_order_success Hl_no_dict = Ok False"
| "hl_order_success (Hl_dict True raw) = Ok True"
| "hl_order_success (Hl_dict False None) = Ok False"
| "hl_order_success (Hl_dict False (Some Not_serialisable)) = Raised"
| "hl_order_success (Hl_dict False (Some (Serialisable raw_str))) = Ok (contains ''filled'' raw_str)"

text \<open>
  What the data manager, the venues and the notifier answer during one call of the
  executor: the two prices of \<^verbatim>\<open>get_data\<close> (open), the price of \<^verbatim>\<open>get_price\<close> (close), the
  positions before and after the orders, Hyperliquid's answer to its order, and the
  notifier (\<open>None\<close>: not configured; \<open>Some False\<close>: it raises). The answer of Backpack to its
  order is only logged and is left out. The display manager is taken to be started, as it is
  when the main loop runs.
\<close>

record answers =
  a_data :: "(real option \<times> real option) py"
  a_bp_price :: "real option py"
  a_pre_bp_positions :: "positions py"
  a_pre_hl_positions :: "positions py"
  a_hl_result :: hl_order_result
  a_post_bp_positions :: "positions py"
  a_post_hl_positions :: "positions py"
  a_alerter :: "bool option"

text \<open>
  The outcome of one call: the returned value, the state, the calls issued, and the verdict
  of the pre/post comparison on the two legs, \<open>None\<close> when the call ended before it.
\<close>

record outcome =
  returned :: ret
  engine_after :: engine
  calls :: "api_call list"
  legs :: "(bool \<times> bool) option"

text \<open>Lines 1129-1139 and their three copies: the first position with the wanted symbol.\<close>

definition find_position :: "positions \<Rightarrow> string \<Rightarrow> position option" where
  "find_position ps wanted = find (\<lambda>pos. p_symbol pos = Some wanted) (map snd ps)"

text \<open>Lines 1269-1292, for the field the venue reports the size in.\<close>

definition position_changed ::
  "(position \<Rightarrow> real option) \<Rightarrow> position option \<Rightarrow> position option \<Rightarrow> real \<Rightarrow> bool" where
  "position_changed field pre post order_size =
     (case post of
        None \<Rightarrow> False
      | Some post_position \<Rightarrow>
          (case pre of
             None \<Rightarrow> True
           | Some pre_position \<Rightarrow>
               \<bar>get_or (field post_position) 0 - get_or (field pre_position) 0\<bar>
                 \<ge> 8 / 10 * order_size))"

text \<open>Lines 1538-1561.\<close>

definition position_closed ::
  "(position \<Rightarrow> real option) \<Rightarrow> position option \<Rightarrow> position option \<Rightarrow> bool" where
  "position_closed field pre post =
     (case pre of
        None \<Rightarrow> False
      | Some pre_position \<Rightarrow>
          (case post of
             None \<Rightarrow> True
           | Some post_position \<Rightarrow>
               (let pre_size = get_or (field pre_position) 0;
                    post_size = get_or (field post_position) 0
                in pre_size > 0 \<and> (pre_size - post_size) / pre_size \<ge> 9 / 10)))"

text \<open>
  Python's \<^verbatim>\<open>round\<close>: to the nearest integer, ties to the even one; with a number of
  digits, the same at that decimal place (on reals, without the float's representation).
\<close>

definition py_round :: "real \<Rightarrow> int" where
  "py_round x =
     (let f = \<lfloor>x\<rfloor>; d = x - of_int f in
      if d < 1 / 2 then f else if 1 / 2 < d then f + 1 else if even f then f else f + 1)"

definition py_round_digits :: "real \<Rightarrow> int \<Rightarrow> real" where
  "py_round_digits x n =
     (if 0 \<le> n then of_int (py_round (x * 10 ^ nat n)) / 10 ^ nat n
      else of_int (py_round (x / 10 ^ nat (- n))) * 10 ^ nat (- n))"

section \<open>Paired executor: \<^verbatim>\<open>_open_position\<close> (lines 1035-1358)\<close>

text \<open>
  Lines 1069-1087: the order size. \<open>Raised\<close> is the \<^verbatim>\<open>KeyError\<close> of
  \<^verbatim>\<open>self.position_sizes[symbol]\<close> or the \<^verbatim>\<open>TypeError\<close> of comparing with a missing
  \<^verbatim>\<open>min_volume\<close>.
\<close>

definition open_size :: "config \<Rightarrow> trading_pair \<Rightarrow> string \<Rightarrow> real option \<Rightarrow> real py" where
  "open_size cfg trading_pair_config symbol available_size =
     (case (case available_size of
              Some a \<Rightarrow> Some a
            | None \<Rightarrow> map_of (strategy_position_sizes cfg) symbol) of
        None \<Rightarrow> Raised
      | Some size0 \<Rightarrow>
          (case tp_min_volume trading_pair_config of
             None \<Rightarrow> Raised
           | Some min_volume \<Rightarrow>
               (let size1 = (if size0 < min_volume then min_volume else size0) in
                Ok (case tp_max_position_size trading_pair_config of
                      None \<Rightarrow> size1
                    | Some max_position_size \<Rightarrow>
                        if size1 > max_position_size then max_position_size else size1))))"

text \<open>Lines 1089-1096: the funding sign is stored and persisted before any order.\<close>

definition record_funding_sign :: "helpers \<Rightarrow> engine \<Rightarrow> string \<Rightarrow> real \<Rightarrow> real \<Rightarrow> engine" where
  "record_funding_sign h st symbol bp_funding hl_funding =
     (case calculate_funding_diff h bp_funding hl_funding of
        (funding_diff, funding_diff_sign) \<Rightarrow>
          save_funding_diff_signs
            (st\<lparr>funding_diff_signs := AList.update symbol funding_diff_sign (funding_diff_signs st)\<rparr>))"

text \<open>Lines 1102-1107.\<close>

definition record_open_price_sign :: "engine \<Rightarrow> string \<Rightarrow> int \<Rightarrow> engine" where
  "record_open_price_sign st symbol price_diff_sign =
     st\<lparr>price_diff_signs := Some (AList.update symbol price_diff_sign (get_or (price_diff_signs st) []))\<rparr>"

text \<open>Lines 1117-1118: each leg's side, from the funding of its own venue.\<close>

definition open_sides :: "real \<Rightarrow> real \<Rightarrow> side \<times> side" where
  "open_sides bp_funding hl_funding =
     (if bp_funding > 0 then SELL else BUY, if hl_funding > 0 then SELL else BUY)"

text \<open>Lines 1151-1156.\<close>

definition hl_limit_price :: "real \<Rightarrow> side \<Rightarrow> real \<Rightarrow> int \<Rightarrow> real" where
  "hl_limit_price price hl_order_side tick price_digits =
     (let hl_price_adjuster = (if hl_order_side = BUY then 1005 / 1000 else 995 / 1000) in
      py_round_digits (of_int (py_round (price * hl_price_adjuster / tick)) * tick) price_digits)"

text \<open>Lines 1161-1179: the two orders of an open.\<close>

definition open_orders :: "string \<Rightarrow> string \<Rightarrow> side \<times> side \<Rightarrow> real \<Rightarrow> real \<Rightarrow> api_call list" where
  "open_orders bp_sym hl_sym sides order_size limit_price =
     [Place_order Backpack
        \<lparr>o_symbol = bp_sym, o_side = fst sides, o_size = order_size, o_price = None, o_type = MARKET\<rparr>,
      Place_order Hyperliquid
        \<lparr>o_symbol = hl_sym, o_side = snd sides, o_size = order_size, o_price = Some limit_price,
         o_type = LIMIT\<rparr>]"

text \<open>Lines 1294-1353: what follows the comparison of the positions.\<close>

definition open_verdict ::
  "answers \<Rightarrow> engine \<Rightarrow> api_call list \<Rightarrow> string \<Rightarrow> string \<Rightarrow> side \<Rightarrow> real \<Rightarrow> bool \<Rightarrow> bool \<Rightarrow> outcome" where
  "open_verdict a st placed bp_sym hl_sym hl_order_side order_size bp_position_changed
       hl_position_changed =
     (if bp_position_changed \<and> hl_position_changed then
        \<lparr>returned = (if a_alerter a = Some False then Returned_False else Returned_True),
         engine_after = st, calls = placed, legs = Some (True, True)\<rparr>
      else if bp_position_changed \<and> \<not> hl_position_changed then
        \<lparr>returned = Returned_False, engine_after = st,
         calls = placed @ [Close_position Backpack bp_sym], legs = Some (True, False)\<rparr>
      else if \<not> bp_position_changed \<and> hl_position_changed then
        \<lparr>returned = Returned_False, engine_after = st,
         calls = placed @
           [Place_order Hyperliquid
              \<lparr>o_symbol = hl_sym, o_side = (if hl_order_side = SELL then BUY else SELL),
               o_size = order_size, o_price = None, o_type = MARKET\<rparr>],
         legs = Some (False, True)\<rparr>
      else
        \<lparr>returned = Returned_False, engine_after = st, calls = placed, legs = Some (False, False)\<rparr>)"

text \<open>
  The function in three stretches. The parameter \<^verbatim>\<open>funding_diff\<close> is not read by the body
  and is left out. Every exception ends the function in the handler of line 1355, which
  returns \<^verbatim>\<open>False\<close>, with the state and the calls as they are at that point.

  Lines 1046-1107: prices, configuration, order size, and the record of the two signs.
  \<open>Inl\<close> is the end of the function, with the value returned and the state.
\<close>

definition open_prepare ::
  "helpers \<Rightarrow> config \<Rightarrow> answers \<Rightarrow> engine \<Rightarrow> string \<Rightarrow> real \<Rightarrow> real \<Rightarrow> real option
     \<Rightarrow> (ret \<times> engine) + (engine \<times> trading_pair \<times> real \<times> real)" where
  "open_prepare h cfg a st symbol bp_funding hl_funding available_size =
     (case a_data a of
        Raised \<Rightarrow> Inl (Returned_False, st)
      | Ok (None, hl_p) \<Rightarrow> Inl (Returned_None, st)
      | Ok (Some bp_p, None) \<Rightarrow> Inl (Returned_None, st)
      | Ok (Some bp_p, Some hl_p) \<Rightarrow>
          (case find (\<lambda>pair. tp_symbol pair = symbol) (trading_pairs cfg) of
             None \<Rightarrow> Inl (Returned_None, st)
           | Some trading_pair_config \<Rightarrow>
               (case open_size cfg trading_pair_config symbol available_size of
                  Raised \<Rightarrow> Inl (Returned_False, st)
                | Ok order_size \<Rightarrow>
                    (let st1 = record_funding_sign h st symbol bp_funding hl_funding in
                     if hl_p = 0 then Inl (Returned_False, st1)
                     else
                       (let price_diff_percent = (bp_p - hl_p) / hl_p * 100 in
                        Inr (record_open_price_sign st1 symbol (sign_of price_diff_percent),
                             trading_pair_config, order_size, hl_p))))))"

text \<open>
  Lines 1110-1292: the sides, the positions before, the two orders, the positions after
  and their comparison. \<open>Inl\<close> is an exception, with the calls issued before it.
\<close>

definition open_dispatch ::
  "helpers \<Rightarrow> answers \<Rightarrow> string \<Rightarrow> real \<Rightarrow> real \<Rightarrow> trading_pair \<Rightarrow> real \<Rightarrow> real
     \<Rightarrow> api_call list + (api_call list \<times> bool \<times> bool)" where
  "open_dispatch h a symbol bp_funding hl_funding trading_pair_config order_size hl_p =
     (let bp_sym = get_backpack_symbol h symbol;
          hl_sym = get_hyperliquid_symbol h symbol;
          sides = open_sides bp_funding hl_funding
      in
      case a_pre_bp_positions a of
        Raised \<Rightarrow> Inl []
      | Ok pre_bp_positions \<Rightarrow>
     (case a_pre_hl_positions a of
        Raised \<Rightarrow> Inl []
      | Ok pre_hl_positions \<Rightarrow>
          (let price_digits = get_or (tp_price_precision trading_pair_config) 3;
               tick = get_or (tp_tick_size trading_pair_config) (1 / 1000)
           in
           if tick = 0 then Inl []
           else
             (let placed =
                    open_orders bp_sym hl_sym sides order_size
                      (hl_limit_price hl_p (snd sides) tick price_digits)
              in
              case hl_order_success (a_hl_result a) of
                Raised \<Rightarrow> Inl placed
              | Ok hl_success \<Rightarrow>
             (case a_post_bp_positions a of
                Raised \<Rightarrow> Inl placed
              | Ok post_bp_positions \<Rightarrow>
             (case a_post_hl_positions a of
                Raised \<Rightarrow> Inl placed
              | Ok post_hl_positions \<Rightarrow>
                  Inr (placed,
                       position_changed p_quantity
                         (find_position pre_bp_positions bp_sym)
                         (find_position post_bp_positions bp_sym) order_size,
                       position_changed p_size
                         (find_position pre_hl_positions hl_sym)
                         (find_position post_hl_positions hl_sym) order_size)))))))"

text \<open>The whole function.\<close>

definition open_position ::
  "helpers \<Rightarrow> config \<Rightarrow> answers \<Rightarrow> engine \<Rightarrow> string \<Rightarrow> real \<Rightarrow> real \<Rightarrow> real option \<Rightarrow> outcome" where
  "open_position h cfg a st symbol bp_funding hl_funding available_size =
     (case open_prepare h cfg a st symbol bp_funding hl_funding available_size of
        Inl (r, s) \<Rightarrow> \<lparr>returned = r, engine_after = s, calls = [], legs = None\<rparr>
      | Inr (st2, trading_pair_config, order_size, hl_p) \<Rightarrow>
          (case open_dispatch h a symbol bp_funding hl_funding trading_pair_config order_size hl_p of
             Inl issued \<Rightarrow>
               \<lparr>returned = Returned_False, engine_after = st2, calls = issued, legs = None\<rparr>
           | Inr (placed, bp_position_changed, hl_position_changed) \<Rightarrow>
               open_verdict a st2 placed (get_backpack_symbol h symbol)
                 (get_hyperliquid_symbol h symbol) (snd (open_sides bp_funding hl_funding))
                 order_size bp_position_changed hl_position_changed))"

section \<open>Paired executor: \<^verbatim>\<open>_close_position\<close> (lines 1360-1608)\<close>

text \<open>
  Lines 1434 and 1437 read the names \<^verbatim>\<open>tick_size\<close> and \<^verbatim>\<open>price_precision\<close>, which
  \<^verbatim>\<open>_close_position\<close> never assigns: Python looks them up among the names of the module, and
  raises \<^verbatim>\<open>NameError\<close> when the module does not bind them. The function is modelled for any
  such bindings; \<open>this_module\<close> are the bindings of \<^verbatim>\<open>arbitrage_engine.py\<close>, which binds
  neither name (its module-level names are its imports and the class).
\<close>

record module_names =
  tick_size :: "real option"
  price_precision :: "int option"

definition this_module :: module_names where
  "this_module = \<lparr>tick_size = None, price_precision = None\<rparr>"

text \<open>Lines 1382-1383 and 1443-1462: the two closing orders.\<close>

definition close_orders :: "position_pair \<Rightarrow> api_call list" where
  "close_orders pos =
     [Place_order Backpack
        \<lparr>o_symbol = bp_symbol pos, o_side = (if bp_side pos = ''BUY'' then SELL else BUY),
         o_size = bp_size pos, o_price = None, o_type = MARKET\<rparr>,
      Place_order Hyperliquid
        \<lparr>o_symbol = hl_symbol pos, o_side = (if hl_side pos = ''BUY'' then SELL else BUY),
         o_size = hl_size pos, o_price = None, o_type = MARKET\<rparr>]"

text \<open>Lines 1572-1577: \<^verbatim>\<open>SignStore.clear\<close>, then the persist.\<close>

definition clear_funding_sign :: "engine \<Rightarrow> string \<Rightarrow> engine" where
  "clear_funding_sign st symbol =
     (if symbol \<in> set (map fst (funding_diff_signs st)) then
        save_funding_diff_signs
          (st\<lparr>funding_diff_signs := AList.delete symbol (funding_diff_signs st)\<rparr>)
      else st)"

text \<open>
  The function in three stretches. Every exception ends it in the handler of line 1604,
  which returns \<^verbatim>\<open>False\<close>.

  Lines 1392-1440: the price, the positions before, and the limit price (computed, logged
  and not used). \<open>None\<close> is the end of the function, with \<^verbatim>\<open>False\<close> and no order: a missing
  or zero price, a missing position, an exception of the venue, the \<^verbatim>\<open>NameError\<close> of an
  unbound \<^verbatim>\<open>tick_size\<close> or \<^verbatim>\<open>price_precision\<close>, or the \<^verbatim>\<open>ZeroDivisionError\<close> of a zero
  \<^verbatim>\<open>tick_size\<close>.
\<close>

definition close_prepare ::
  "module_names \<Rightarrow> answers \<Rightarrow> position_pair \<Rightarrow> (position \<times> position) option" where
  "close_prepare g a pos =
     (case a_bp_price a of
        Raised \<Rightarrow> None
      | Ok None \<Rightarrow> None
      | Ok (Some price) \<Rightarrow>
          if price = 0 then None
          else
            (case a_pre_bp_positions a of
               Raised \<Rightarrow> None
             | Ok pre_bp_positions \<Rightarrow>
            (case a_pre_hl_positions a of
               Raised \<Rightarrow> None
             | Ok pre_hl_positions \<Rightarrow>
                 (case find_position pre_bp_positions (bp_symbol pos) of
                    None \<Rightarrow> None
                  | Some pre_bp_position \<Rightarrow>
                      (case find_position pre_hl_positions (hl_symbol pos) of
                         None \<Rightarrow> None
                       | Some pre_hl_position \<Rightarrow>
                           (case tick_size g of
                              None \<Rightarrow> None
                            | Some tick \<Rightarrow>
                                if tick = 0 then None
                                else
                                  (case price_precision g of
                                     None \<Rightarrow> None
                                   | Some price_digits \<Rightarrow>
                                       Some (pre_bp_position, pre_hl_position))))))))"

text \<open>
  Lines 1442-1561: the two orders, the positions after, and their comparison with the
  positions before. \<open>Inl\<close> is an exception, with the calls issued before it.
\<close>

definition close_dispatch ::
  "answers \<Rightarrow> position_pair \<Rightarrow> position \<Rightarrow> position \<Rightarrow> api_call list + (api_call list \<times> bool \<times> bool)" where
  "close_dispatch a pos pre_bp_position pre_hl_position =
     (let placed = close_orders pos in
      case hl_order_success (a_hl_result a) of
        Raised \<Rightarrow> Inl placed
      | Ok hl_success \<Rightarrow>
     (case a_post_bp_positions a of
        Raised \<Rightarrow> Inl placed
      | Ok post_bp_positions \<Rightarrow>
     (case a_post_hl_positions a of
        Raised \<Rightarrow> Inl placed
      | Ok post_hl_positions \<Rightarrow>
          Inr (placed,
               position_closed p_quantity (Some pre_bp_position)
                 (find_position post_bp_positions (bp_symbol pos)),
               position_closed p_size (Some pre_hl_position)
                 (find_position post_hl_positions (hl_symbol pos))))))"

text \<open>The whole function, with lines 1563-1602 after the comparison.\<close>

definition close_position ::
  "module_names \<Rightarrow> answers \<Rightarrow> engine \<Rightarrow> string \<Rightarrow> position_pair \<Rightarrow> outcome" where
  "close_position g a st symbol pos =
     (case close_prepare g a pos of
        None \<Rightarrow> \<lparr>returned = Returned_False, engine_after = st, calls = [], legs = None\<rparr>
      | Some (pre_bp_position, pre_hl_position) \<Rightarrow>
          (case close_dispatch a pos pre_bp_position pre_hl_position of
             Inl issued \<Rightarrow>
               \<lparr>returned = Returned_False, engine_after = st, calls = issued, legs = None\<rparr>
           | Inr (placed, bp_position_closed, hl_position_closed) \<Rightarrow>
               if bp_position_closed \<and> hl_position_closed then
                 \<lparr>returned = (if a_alerter a = Some False then Returned_False else Returned_True),
                  engine_after = clear_funding_sign st symbol,
                  calls = placed, legs = Some (True, True)\<rparr>
               else
                 \<lparr>returned = Returned_False, engine_after = st, calls = placed,
                  legs = Some (bp_position_closed, hl_position_closed)\<rparr>))"

section \<open>Concrete inputs\<close>

text \<open>
  The inputs at which the theorems below are evaluated: the sign file, a configuration
  whose condition tables have no key (so that every default applies), one trading pair,
  engines without and with a stored sign, positions as the venues report them, and the
  answers of the venues around a pair of orders.
\<close>

definition sign_file :: string where
  "sign_file = ''data/funding_diff_signs.json''"

definition default_open_conditions :: open_conditions where
  "default_open_conditions =
     \<lparr>oc_condition_type = None, oc_min_funding_diff = None, oc_min_price_diff_percent = None,
      oc_max_price_diff_percent = None, oc_max_slippage_percent = None,
      oc_ignore_high_slippage = None, oc_check_direction_consistency = None\<rparr>"

definition default_close_conditions :: close_conditions where
  "default_close_conditions =
     \<lparr>cc_condition_type = None, cc_funding_diff_sign_change = None,
      cc_price_diff_sign_change = None, cc_min_funding_diff = None,
      cc_min_profit_percent = None, cc_max_close_slippage_percent = None,
      cc_ignore_close_slippage = None, cc_check_direction_consistency = None\<rparr>"

definition btc_pair :: "real \<Rightarrow> trading_pair" where
  "btc_pair cap =
     \<lparr>tp_symbol = ''BTC'', tp_max_position_size = Some cap, tp_min_volume = Some (1 / 1000),
      tp_price_precision = Some 1, tp_tick_size = Some (1 / 10)\<rparr>"

definition example_config ::
  "trading_pair list \<Rightarrow> trading_pair list \<Rightarrow> open_conditions \<Rightarrow> close_conditions \<Rightarrow> config" where
  "example_config top_level under_strategy oc cc =
     \<lparr>trading_pairs = top_level, strategy_trading_pairs = under_strategy,
      strategy_open_conditions = oc, strategy_close_conditions = cc,
      strategy_max_positions_count = None, strategy_position_sizes = []\<rparr>"

definition empty_engine :: engine where
  "empty_engine =
     \<lparr>funding_diff_signs = [], price_diff_signs = None, funding_signs_file = sign_file,
      files = (\<lambda>path. None)\<rparr>"

definition held_engine :: engine where
  "held_engine =
     \<lparr>funding_diff_signs = [(''BTC'', 1)], price_diff_signs = Some [(''BTC'', 1)],
      funding_signs_file = sign_file,
      files = (\<lambda>path. if path = sign_file then Some (json_dumps [(''BTC'', 1)]) else None)\<rparr>"

definition venue_position :: "string \<Rightarrow> string \<Rightarrow> real \<Rightarrow> position" where
  "venue_position venue_symbol held_side held =
     \<lparr>p_symbol = Some venue_symbol, p_side = Some held_side, p_size = Some held,
      p_quantity = Some held\<rparr>"

definition bp_held :: positions where
  "bp_held = [(''BTC_USDC_PERP'', venue_position ''BTC_USDC_PERP'' ''SELL'' 1)]"

definition hl_held :: positions where
  "hl_held = [(''BTC'', venue_position ''BTC'' ''BUY'' 1)]"

definition example_answers ::
  "positions \<Rightarrow> positions \<Rightarrow> hl_order_result \<Rightarrow> positions \<Rightarrow> positions \<Rightarrow> answers" where
  "example_answers pre_bp pre_hl hl_result post_bp post_hl =
     \<lparr>a_data = Ok (Some 100, Some 100), a_bp_price = Ok (Some 100),
      a_pre_bp_positions = Ok pre_bp, a_pre_hl_positions = Ok pre_hl, a_hl_result = hl_result,
      a_post_bp_positions = Ok post_bp, a_post_hl_positions = Ok post_hl, a_alerter = None\<rparr>"

text \<open>
  Scenario 1 of the specification: no position, Backpack funding 0.0002, Hyperliquid
  funding 0.00000625 an hour, that is 0.00005 once normalised, equal prices, a low
  slippage. The candidate is the one the evaluator emits for it, with the helpers of the
  specification.
\<close>

definition scenario1_market :: market where
  "scenario1_market =
     \<lparr>data = Ok \<lparr>d_bp_price = 100, d_bp_funding = 2 / 10000, d_hl_price = 100,
                 d_hl_funding = 625 / 100000000\<rparr>,
      data_valid = True, market_total_slippage = Some (5 / 100)\<rparr>"

definition scenario1_candidate :: "real \<Rightarrow> open_candidate" where
  "scenario1_candidate available =
     \<lparr>oc_symbol = ''BTC'', oc_funding_diff = 15 / 100000, oc_bp_funding = 2 / 10000,
      oc_hl_funding = 5 / 100000, oc_available_size = Some available, oc_reason = Funding_met\<rparr>"

text \<open>
  An open of that candidate from flat venues; the parameters are the positions that the
  venues report after the orders.
\<close>

definition open_run :: "positions \<Rightarrow> positions \<Rightarrow> outcome" where
  "open_run post_bp post_hl =
     open_position spec_helpers
       (example_config [btc_pair 1] [] default_open_conditions default_close_conditions)
       (example_answers [] [] Hl_exception post_bp post_hl)
       empty_engine ''BTC'' (2 / 10000) (5 / 100000) (Some 1)"

text \<open>
  Scenario 4 of the specification: a short on Backpack and a long on Hyperliquid, the stored
  funding sign \<open>1\<close>, and a funding difference of \<open>-0.00008\<close> now; the close conditions are
  \<^verbatim>\<open>funding_only\<close>. The close runs with the given bindings of the module's names and the
  given positions before the orders; after them the venues report no position.
\<close>

definition scenario4_market :: market where
  "scenario4_market =
     \<lparr>data = Ok \<lparr>d_bp_price = 100, d_bp_funding = 0, d_hl_price = 100,
                 d_hl_funding = 1 / 100000\<rparr>,
      data_valid = True, market_total_slippage = Some (5 / 100)\<rparr>"

definition scenario4_config :: config where
  "scenario4_config =
     example_config [btc_pair 1] [] default_open_conditions
       (default_close_conditions\<lparr>cc_condition_type := Some ''funding_only''\<rparr>)"

definition btc_position_pair :: position_pair where
  "btc_position_pair =
     \<lparr>bp_symbol = ''BTC_USDC_PERP'', hl_symbol = ''BTC'', bp_side = ''SELL'', hl_side = ''BUY'',
      bp_size = 1, hl_size = 1\<rparr>"

definition close_run :: "module_names \<Rightarrow> positions \<Rightarrow> positions \<Rightarrow> outcome" where
  "close_run g pre_bp pre_hl =
     close_position g (example_answers pre_bp pre_hl (Hl_dict True None) [] [])
       held_engine ''BTC'' btc_position_pair"

section \<open>Properties of the slippage analyzer\<close>

lemma clamp_range:
  "1 / 100 \<le> max (1 / 100) (min (5 / 10) (x::real)) \<and> max (1 / 100) (min (5 / 10) x) \<le> 5 / 10"
  by (simp add: max_def min_def)

lemma low_fill_penalty:
  "\<not> (f / a * 100 \<ge> 80) \<Longrightarrow> min (2 / 10) ((100 - f / a * 100) / 100) = (2 / 10 :: real)"
  by (simp add: min_def)

lemma slippage_of_fill_range:
  "1 / 100 \<le> slippage_of_fill side amount_usd price acc \<and>
   slippage_of_fill side amount_usd price acc \<le> 5 / 10"
proof -
  obtain f w p where acc: "acc = (f, w, p)"
    by (cases acc) auto
  show ?thesis
  proof (cases "f < amount_usd \<and> amount_usd = 0")
    case True
    then show ?thesis by (simp add: slippage_of_fill_def acc)
  next
    case zero: False
    show ?thesis
    proof (cases "f < amount_usd \<and> \<not> (f / amount_usd * 100 \<ge> 80)")
      case True
      then have "slippage_of_fill side amount_usd price acc = 2 / 10"
        using zero low_fill_penalty [of f amount_usd]
        by (simp add: slippage_of_fill_def acc del: min_less_iff_conj)
      then show ?thesis by simp
    next
      case full: False
      show ?thesis
      proof (cases "f > 0 \<and> p \<noteq> 0 \<and> (\<exists>pr. price = Some pr \<and> pr \<noteq> 0)")
        case True
        then obtain pr where pr: "price = Some pr" "pr \<noteq> 0" by blast
        have "\<exists>x. slippage_of_fill side amount_usd price acc = max (1 / 100) (min (5 / 10) x)"
          using zero full True pr
          by (auto simp add: slippage_of_fill_def acc Let_def simp del: max_less_iff_conj)
        then show ?thesis using clamp_range by metis
      next
        case False
        then have "slippage_of_fill side amount_usd price acc = 1 / 10"
          using zero full
          by (auto simp add: slippage_of_fill_def acc Let_def split: option.split)
        then show ?thesis by simp
      qed
    qed
  qed
qed

text \<open>
  C5. For every orderbook, side name, notional amount and mid price the analyzer returns a
  value in the closed interval from 0.01 to 0.5.
\<close>

theorem analyze_orderbook_range:
  "1 / 100 \<le> analyze_orderbook orderbook side amount_usd price \<and>
   analyze_orderbook orderbook side amount_usd price \<le> 5 / 10"
  using slippage_of_fill_range
  by (simp add: analyze_orderbook_def split: option.split)

lemma level_entry_unrecognised: "unrecognised_shape l \<Longrightarrow> level_entry l = Ok None"
  by (induction l rule: unrecognised_shape.induct) simp_all

lemma convert_levels_unrecognised:
  "list_all unrecognised_shape levels \<Longrightarrow> convert_levels levels = Some []"
  by (induction levels) (simp_all add: level_entry_unrecognised)

lemma convert_levels_recognised:
  "convert_levels (recognised_levels levels) = convert_levels levels"
proof (induction levels)
  case Nil
  show ?case by (simp add: recognised_levels_def)
next
  case (Cons l ls)
  show ?case
  proof (cases "unrecognised_shape l")
    case True
    then have "recognised_levels (l # ls) = recognised_levels ls"
      by (simp add: recognised_levels_def)
    moreover have "convert_levels (l # ls) = convert_levels ls"
      using True by (simp add: level_entry_unrecognised split: option.split)
    ultimately show ?thesis
      using Cons.IH by simp
  next
    case False
    then have "recognised_levels (l # ls) = l # recognised_levels ls"
      by (simp add: recognised_levels_def)
    then show ?thesis
      by (simp only: convert_levels.simps Cons.IH)
  qed
qed

lemma recognised_levels_empty:
  "recognised_levels levels = [] \<Longrightarrow> list_all unrecognised_shape levels"
  by (induction levels) (simp_all add: recognised_levels_def split: if_splits)

text \<open>
  C9, as stated, fails: an asks side made of one level of unrecognised shape and the level
  \<^verbatim>\<open>[1002, 1]\<close>, for a notional of 100 at mid price 1000, yields 0.2, computed from the
  remaining level, and not the default 0.1.
\<close>

theorem unknown_level_not_default:
  "analyze_orderbook (Some [(''asks'', [Unrecognised, Level_list [Some 1002, Some 1]])])
     ''asks'' (Some 100) (Some 1000) = 2 / 10"
  by (simp add: analyze_orderbook_def sort_book_side_def slippage_of_fill_def to_floats_def)

text \<open>
  C9, amended. The analyzer returns the default 0.1 when there is no orderbook, when the
  requested side is missing or empty, and when no level of the side has a recognised shape.
  A level of unrecognised shape among recognised ones is skipped: the result is the one
  computed from the side without these levels.
\<close>

theorem analyze_orderbook_defects:
  "(no_recognised_level orderbook side \<longrightarrow>
      analyze_orderbook orderbook side amount_usd price = 1 / 10) \<and>
   (map_of ob side = Some levels \<longrightarrow>
      analyze_orderbook (Some ob) side amount_usd price =
      analyze_orderbook (Some [(side, recognised_levels levels)]) side amount_usd price)"
proof (intro conjI impI)
  assume "no_recognised_level orderbook side"
  then show "analyze_orderbook orderbook side amount_usd price = 1 / 10"
    by (auto simp add: no_recognised_level_def analyze_orderbook_def convert_levels_unrecognised
        split: option.splits)
next
  assume side: "map_of ob side = Some levels"
  then have ob: "ob \<noteq> []" by auto
  show "analyze_orderbook (Some ob) side amount_usd price =
        analyze_orderbook (Some [(side, recognised_levels levels)]) side amount_usd price"
  proof (cases "recognised_levels levels = []")
    case True
    then have "convert_levels levels = Some []"
      by (simp add: recognised_levels_empty convert_levels_unrecognised)
    then show ?thesis
      using side ob True by (simp add: analyze_orderbook_def)
  next
    case False
    then have "levels \<noteq> []" by (auto simp add: recognised_levels_def)
    then show ?thesis
      using side ob False
      by (simp add: analyze_orderbook_def convert_levels_recognised)
  qed
qed

theorem analyze_orderbook_defects_witness:
  "no_recognised_level (Some [(''asks'', [Unrecognised])]) ''asks'' \<and>
   analyze_orderbook (Some [(''asks'', [Unrecognised])]) ''asks'' (Some 100) (Some 1000) = 1 / 10 \<and>
   map_of [(''asks'', [Unrecognised, Level_list [Some 1002, Some 1]])] ''asks''
     = Some [Unrecognised, Level_list [Some 1002, Some 1]] \<and>
   analyze_orderbook (Some [(''asks'', [Unrecognised, Level_list [Some 1002, Some 1]])])
     ''asks'' (Some 100) (Some 1000) =
   analyze_orderbook (Some [(''asks'', [Level_list [Some 1002, Some 1]])])
     ''asks'' (Some 100) (Some 1000)"
proof -
  have d: "no_recognised_level (Some [(''asks'', [Unrecognised])]) ''asks''"
    by (simp add: no_recognised_level_def)
  have m: "map_of [(''asks'', [Unrecognised, Level_list [Some 1002, Some 1]])] ''asks''
     = Some [Unrecognised, Level_list [Some 1002, Some 1]]"
    by simp
  have r: "recognised_levels [Unrecognised, Level_list [Some 1002, Some 1]]
     = [Level_list [Some 1002, Some 1]]"
    by (simp add: recognised_levels_def)
  show ?thesis
    using d m
      analyze_orderbook_defects [of "Some [(''asks'', [Unrecognised])]" "''asks''"
        "Some 100" "Some 1000" "[(''asks'', [Unrecognised, Level_list [Some 1002, Some 1]])]"
        "[Unrecognised, Level_list [Some 1002, Some 1]]"]
    by (simp only: r simp_thms)
qed

section \<open>Properties of the persist\<close>

lemmas inputs =
  sign_file_def default_open_conditions_def default_close_conditions_def btc_pair_def
  example_config_def empty_engine_def held_engine_def venue_position_def bp_held_def
  hl_held_def example_answers_def scenario1_market_def scenario1_candidate_def
  scenario4_market_def scenario4_config_def btc_position_pair_def

lemmas json_text =
  json_dumps_def json_string_def json_escape_def json_int_def decimal.simps

text \<open>
  The protocol of the specification is atomic in the sense of \<open>old_or_new\<close>: interrupted
  anywhere, it leaves in the sign file what was there or the complete new text.
\<close>

lemma write_temp_rename_atomic:
  assumes "temp \<noteq> file"
  shows "old_or_new file signs fs (interrupted k (write_temp_rename_ops temp file signs) fs)"
proof -
  have "k = 0 \<or> k = 1 \<or> k = 2 \<or> k \<ge> 3" by arith
  then show ?thesis
    using assms
    by (auto simp add: old_or_new_def interrupted_def write_temp_rename_ops_def run_file_ops_def
        numeral_2_eq_2 numeral_3_eq_3 split: option.splits)
qed

text \<open>
  C8, as stated, fails: the sign file holds the text for \<^verbatim>\<open>{"BTC": 1}\<close>, the engine persists
  the map with a second entry, and the persist is interrupted after its first operation.
  The sign file is then empty: it holds neither the old text nor the new one.
\<close>

theorem interrupted_save_truncates:
  "interrupted 1 (save_funding_diff_signs_ops sign_file [(''BTC'', 1), (''ETH'', - 1)])
     (files held_engine) sign_file = Some [] \<and>
   \<not> old_or_new sign_file [(''BTC'', 1), (''ETH'', - 1)] (files held_engine)
        (interrupted 1 (save_funding_diff_signs_ops sign_file [(''BTC'', 1), (''ETH'', - 1)])
           (files held_engine))"
  by (simp add: old_or_new_def interrupted_def save_funding_diff_signs_ops_def run_file_ops_def
      json_dumps_def held_engine_def)

text \<open>
  C8, amended. Every persist of the sign store opens the sign file itself for writing,
  which empties it, and then writes the JSON text of the map into it; there is no temporary
  file and no rename. A persist that completes leaves the JSON text of the map in the sign
  file; a persist interrupted after the open leaves the sign file empty.
\<close>

theorem save_in_place:
  "save_funding_diff_signs_ops file signs =
     [Open_for_writing file, Write_text file (json_dumps signs)] \<and>
   files (save_funding_diff_signs st) (funding_signs_file st) =
     Some (json_dumps (funding_diff_signs st)) \<and>
   interrupted 1 (save_funding_diff_signs_ops file signs) fs file = Some []"
  by (simp add: save_funding_diff_signs_def interrupted_def save_funding_diff_signs_ops_def
      run_file_ops_def)

section \<open>Properties of the opportunity evaluator\<close>

lemmas evaluate_open =
  collect_arbitrage_opportunity_def check_open_conditions_without_execution_def
  position_symbols_def should_open_def funding_condition_met_def price_condition_met_def
  direction_consistent_def sign_of_def get_or_def spec_helpers_def normalised_funding_diff_def
  usdc_perp_symbol_def




text \<open>
  C7, as stated, fails. With a cap of 5 for the symbol in the list at the top level of the
  configuration and a cap of 1 in the list under \<^verbatim>\<open>strategy\<close>, the candidate emitted for a
  symbol without a position has size 5; and with the trading pair configured under
  \<^verbatim>\<open>strategy\<close> only, as the schema has it, no candidate is emitted.
\<close>

theorem cap_read_from_top_level:
  "collect_arbitrage_opportunity spec_helpers
     (example_config [btc_pair 5] [btc_pair 1] default_open_conditions default_close_conditions)
     scenario1_market empty_engine ''BTC'' [] [] [] []
   = (empty_engine, [scenario1_candidate 5], []) \<and>
   collect_arbitrage_opportunity spec_helpers
     (example_config [] [btc_pair 1] default_open_conditions default_close_conditions)
     scenario1_market empty_engine ''BTC'' [] [] [] []
   = (empty_engine, [], [])"
  by (simp add: evaluate_open inputs)

text \<open>
  C7, amended. For every open evaluation of a symbol, the per-symbol cap is the
  \<^verbatim>\<open>max_position_size\<close> (0 when absent) of the first entry for the symbol in the
  \<^verbatim>\<open>trading_pairs\<close> list at the top level of the configuration. Without such an entry no
  candidate is emitted. The currently held size is taken to be 0: the symbol is skipped when
  the cap is not positive, and otherwise a candidate, if one is emitted, has the size of the
  cap minus 0.
\<close>

theorem open_candidate_size:
  assumes "collect_arbitrage_opportunity h cfg m st symbol open_candidates close_candidates
             bp_positions hl_positions = (st', open_candidates', close_candidates')"
  shows "case find (\<lambda>pair. tp_symbol pair = symbol) (trading_pairs cfg) of
           None \<Rightarrow> open_candidates' = open_candidates
         | Some pair \<Rightarrow>
             (let cap = get_or (tp_max_position_size pair) 0 in
              if 0 \<ge> cap then open_candidates' = open_candidates
              else open_candidates' = open_candidates \<or>
                   (\<exists>c. open_candidates' = open_candidates @ [c] \<and> oc_symbol c = symbol \<and>
                        oc_available_size c = Some (cap - 0)))"
  using assms
  by (auto simp add: collect_arbitrage_opportunity_def check_open_conditions_without_execution_def
      Let_def split: if_splits option.splits py.splits prod.splits)

theorem open_candidate_size_witness:
  "collect_arbitrage_opportunity spec_helpers
     (example_config [btc_pair 1] [] default_open_conditions default_close_conditions)
     scenario1_market empty_engine ''BTC'' [] [] [] []
   = (empty_engine, [scenario1_candidate 1], []) \<and>
   find (\<lambda>pair. tp_symbol pair = ''BTC'')
     (trading_pairs (example_config [btc_pair 1] [] default_open_conditions default_close_conditions))
   = Some (btc_pair 1) \<and>
   oc_available_size (scenario1_candidate 1) = Some (get_or (tp_max_position_size (btc_pair 1)) 0 - 0)"
proof -
  let ?cfg = "example_config [btc_pair 1] [] default_open_conditions default_close_conditions"
  have run: "collect_arbitrage_opportunity spec_helpers ?cfg scenario1_market empty_engine ''BTC''
      [] [] [] [] = (empty_engine, [scenario1_candidate 1], [])"
    by (simp add: evaluate_open inputs)
  have pair: "find (\<lambda>pair. tp_symbol pair = ''BTC'') (trading_pairs ?cfg) = Some (btc_pair 1)"
    by (simp add: example_config_def btc_pair_def)
  have cap: "\<not> 0 \<ge> get_or (tp_max_position_size (btc_pair 1)) 0"
    by (simp add: get_or_def btc_pair_def)
  from open_candidate_size [OF run] pair cap
  have "oc_available_size (scenario1_candidate 1)
      = Some (get_or (tp_max_position_size (btc_pair 1)) 0 - 0)"
    by (simp add: Let_def)
  with run pair show ?thesis
    by simp
qed

section \<open>Properties of \<^verbatim>\<open>_open_position\<close>\<close>

lemmas run_open =
  open_run_def open_position_def open_prepare_def open_dispatch_def open_verdict_def
  open_size_def record_funding_sign_def record_open_price_sign_def save_funding_diff_signs_def
  save_funding_diff_signs_ops_def run_file_ops_def open_sides_def open_orders_def
  hl_limit_price_def py_round_def py_round_digits_def find_position_def position_changed_def
  get_or_def sign_of_def spec_helpers_def normalised_funding_diff_def usdc_perp_symbol_def

lemma record_funding_sign_signs:
  "funding_diff_signs (record_funding_sign h st symbol bpf hlf) =
     AList.update symbol (snd (calculate_funding_diff h bpf hlf)) (funding_diff_signs st)"
  by (simp add: record_funding_sign_def save_funding_diff_signs_def split: prod.split)

lemma record_funding_sign_file:
  "files (record_funding_sign h st symbol bpf hlf) (funding_signs_file st) =
     Some (json_dumps
            (AList.update symbol (snd (calculate_funding_diff h bpf hlf)) (funding_diff_signs st)))"
  by (simp add: record_funding_sign_def save_funding_diff_signs_def
      save_funding_diff_signs_ops_def run_file_ops_def split: prod.split)

lemma record_open_price_sign_keeps:
  "funding_diff_signs (record_open_price_sign st symbol s) = funding_diff_signs st"
  "files (record_open_price_sign st symbol s) = files st"
  by (simp_all add: record_open_price_sign_def)

lemma open_prepare_state:
  assumes "open_prepare h cfg a st symbol bpf hlf avail = Inr (st2, tpc, order_size, hl_p)"
  shows "\<exists>s. st2 = record_open_price_sign (record_funding_sign h st symbol bpf hlf) symbol s"
  using assms
  by (auto simp add: open_prepare_def Let_def split: py.splits option.splits prod.splits if_splits)

lemma open_dispatch_placed:
  assumes "open_dispatch h a symbol bpf hlf tpc order_size hl_p = Inr (placed, b, l)"
  shows "\<exists>limit_price. placed =
           open_orders (get_backpack_symbol h symbol) (get_hyperliquid_symbol h symbol)
             (open_sides bpf hlf) order_size limit_price"
  using assms
  by (auto simp add: open_dispatch_def Let_def split: py.splits if_splits)

lemma open_dispatch_issued:
  assumes "open_dispatch h a symbol bpf hlf tpc order_size hl_p = Inl issued"
  shows "issued = [] \<or> (\<exists>limit_price. issued =
           open_orders (get_backpack_symbol h symbol) (get_hyperliquid_symbol h symbol)
             (open_sides bpf hlf) order_size limit_price)"
  using assms
  by (auto simp add: open_dispatch_def Let_def split: py.splits if_splits)

text \<open>
  An open that compares the positions has recorded both signs and placed both orders, and
  ends as \<open>open_verdict\<close> says.
\<close>

lemma open_position_reaches_verdict:
  assumes "legs (open_position h cfg a st symbol bpf hlf avail) = Some v"
  shows "\<exists>order_size limit_price price_sign.
           open_position h cfg a st symbol bpf hlf avail =
             open_verdict a
               (record_open_price_sign (record_funding_sign h st symbol bpf hlf) symbol price_sign)
               (open_orders (get_backpack_symbol h symbol) (get_hyperliquid_symbol h symbol)
                  (open_sides bpf hlf) order_size limit_price)
               (get_backpack_symbol h symbol) (get_hyperliquid_symbol h symbol)
               (snd (open_sides bpf hlf)) order_size (fst v) (snd v)"
proof (cases "open_prepare h cfg a st symbol bpf hlf avail")
  case (Inl e)
  then show ?thesis
    using assms by (simp add: open_position_def split: prod.splits)
next
  case (Inr r)
  then obtain st2 tpc order_size hl_p where
    prep: "open_prepare h cfg a st symbol bpf hlf avail = Inr (st2, tpc, order_size, hl_p)"
    by (cases r) auto
  from open_prepare_state [OF prep] obtain s where
    st2: "st2 = record_open_price_sign (record_funding_sign h st symbol bpf hlf) symbol s" ..
  show ?thesis
  proof (cases "open_dispatch h a symbol bpf hlf tpc order_size hl_p")
    case (Inl issued)
    then show ?thesis
      using assms prep by (simp add: open_position_def)
  next
    case (Inr d)
    then obtain placed b l where
      disp: "open_dispatch h a symbol bpf hlf tpc order_size hl_p = Inr (placed, b, l)"
      by (cases d) auto
    from open_dispatch_placed [OF disp] obtain limit_price where
      placed: "placed =
        open_orders (get_backpack_symbol h symbol) (get_hyperliquid_symbol h symbol)
          (open_sides bpf hlf) order_size limit_price" ..
    have out: "open_position h cfg a st symbol bpf hlf avail =
        open_verdict a st2 placed (get_backpack_symbol h symbol) (get_hyperliquid_symbol h symbol)
          (snd (open_sides bpf hlf)) order_size b l"
      using prep disp by (simp add: open_position_def)
    have "legs (open_verdict a st2 placed (get_backpack_symbol h symbol)
        (get_hyperliquid_symbol h symbol) (snd (open_sides bpf hlf)) order_size b l) = Some (b, l)"
      by (simp add: open_verdict_def)
    with assms out have "v = (b, l)"
      by simp
    with out st2 placed show ?thesis
      by auto
  qed
qed

text \<open>The calls of an open, if any, begin with the two orders of \<open>open_orders\<close>.\<close>

lemma open_position_calls:
  "calls (open_position h cfg a st symbol bpf hlf avail) = [] \<or>
   (\<exists>order_size limit_price rest.
      calls (open_position h cfg a st symbol bpf hlf avail) =
        open_orders (get_backpack_symbol h symbol) (get_hyperliquid_symbol h symbol)
          (open_sides bpf hlf) order_size limit_price @ rest)"
proof (cases "open_prepare h cfg a st symbol bpf hlf avail")
  case (Inl e)
  then show ?thesis
    by (simp add: open_position_def split: prod.splits)
next
  case (Inr r)
  then obtain st2 tpc order_size hl_p where
    prep: "open_prepare h cfg a st symbol bpf hlf avail = Inr (st2, tpc, order_size, hl_p)"
    by (cases r) auto
  show ?thesis
  proof (cases "open_dispatch h a symbol bpf hlf tpc order_size hl_p")
    case (Inl issued)
    then have "calls (open_position h cfg a st symbol bpf hlf avail) = issued"
      using prep by (simp add: open_position_def)
    with open_dispatch_issued [OF Inl] show ?thesis
      by (metis append_Nil2)
  next
    case (Inr d)
    then obtain placed b l where
      disp: "open_dispatch h a symbol bpf hlf tpc order_size hl_p = Inr (placed, b, l)"
      by (cases d) auto
    from open_dispatch_placed [OF disp] obtain limit_price where
      placed: "placed =
        open_orders (get_backpack_symbol h symbol) (get_hyperliquid_symbol h symbol)
          (open_sides bpf hlf) order_size limit_price" ..
    have "\<exists>rest. calls (open_position h cfg a st symbol bpf hlf avail) = placed @ rest"
      using prep disp by (simp add: open_position_def open_verdict_def)
    with placed show ?thesis
      by blast
  qed
qed

text \<open>The open of scenario 1 when only Backpack, only Hyperliquid, or both report a position.\<close>

lemma open_run_backpack_only:
  "legs (open_run bp_held []) = Some (True, False)"
  "returned (open_run bp_held []) = Returned_False"
  "calls (open_run bp_held []) =
     [Place_order Backpack
        \<lparr>o_symbol = ''BTC_USDC_PERP'', o_side = SELL, o_size = 1, o_price = None, o_type = MARKET\<rparr>,
      Place_order Hyperliquid
        \<lparr>o_symbol = ''BTC'', o_side = SELL, o_size = 1, o_price = Some (995 / 10), o_type = LIMIT\<rparr>,
      Close_position Backpack ''BTC_USDC_PERP'']"
  "funding_diff_signs (engine_after (open_run bp_held [])) = [(''BTC'', - 1)]"
  "files (engine_after (open_run bp_held [])) sign_file = Some (json_dumps [(''BTC'', - 1)])"
  by (simp_all add: run_open inputs)

lemma open_run_hyperliquid_only:
  "legs (open_run [] hl_held) = Some (False, True)"
  by (simp add: run_open inputs)

lemma open_run_both:
  "legs (open_run bp_held hl_held) = Some (True, True)"
  "returned (open_run bp_held hl_held) = Returned_True"
  "calls (open_run bp_held hl_held) =
     [Place_order Backpack
        \<lparr>o_symbol = ''BTC_USDC_PERP'', o_side = SELL, o_size = 1, o_price = None, o_type = MARKET\<rparr>,
      Place_order Hyperliquid
        \<lparr>o_symbol = ''BTC'', o_side = SELL, o_size = 1, o_price = Some (995 / 10), o_type = LIMIT\<rparr>]"
  "funding_diff_signs (engine_after (open_run bp_held hl_held)) = [(''BTC'', - 1)]"
  by (simp_all add: run_open inputs)

lemma json_minus_one: \<open>json_dumps [(''BTC'', - 1)] = ''{"BTC": -1}''\<close>
  by (simp add: json_text)

text \<open>
  C1, as stated, fails on the sign store. The open of scenario 1 starts with no stored sign
  and no sign file; only Backpack reports a position afterwards. The executor closes the
  Backpack position and returns \<^verbatim>\<open>False\<close>, and the sign store, in memory and on file, holds
  an entry for the symbol.
\<close>

theorem failed_open_writes_sign:
  \<open>legs (open_run bp_held []) = Some (True, False) \<and>
   returned (open_run bp_held []) = Returned_False \<and>
   funding_diff_signs empty_engine = [] \<and>
   files empty_engine sign_file = None \<and>
   funding_diff_signs (engine_after (open_run bp_held [])) = [(''BTC'', - 1)] \<and>
   files (engine_after (open_run bp_held [])) sign_file = Some ''{"BTC": -1}''\<close>
  using open_run_backpack_only json_minus_one
  by (simp add: empty_engine_def)

text \<open>
  C1, amended. For every open in which exactly one leg's position change is verified, the
  executor has placed the two orders, then unwinds the filled venue (on Backpack by the
  venue's close-position call, on Hyperliquid by a market order of the opposite side and the
  same size) and returns \<^verbatim>\<open>False\<close>. The sign store is not left unchanged: before any order
  the executor has set the symbol's entry to the sign that \<^verbatim>\<open>calculate_funding_diff\<close> gives
  for its two funding arguments and has persisted the map, and the failed open leaves both
  as they are.
\<close>

theorem partial_open_unwinds_and_keeps_sign:
  assumes "legs (open_position h cfg a st symbol bpf hlf avail) = Some (bp_changed, hl_changed)"
    and "bp_changed \<noteq> hl_changed"
  shows "returned (open_position h cfg a st symbol bpf hlf avail) = Returned_False \<and>
     (\<exists>o1 o2. calls (open_position h cfg a st symbol bpf hlf avail) =
        [Place_order Backpack o1, Place_order Hyperliquid o2,
         if bp_changed then Close_position Backpack (get_backpack_symbol h symbol)
         else Place_order Hyperliquid
                \<lparr>o_symbol = get_hyperliquid_symbol h symbol,
                 o_side = (if o_side o2 = SELL then BUY else SELL),
                 o_size = o_size o2, o_price = None, o_type = MARKET\<rparr>]) \<and>
     funding_diff_signs (engine_after (open_position h cfg a st symbol bpf hlf avail)) =
       AList.update symbol (snd (calculate_funding_diff h bpf hlf)) (funding_diff_signs st) \<and>
     files (engine_after (open_position h cfg a st symbol bpf hlf avail)) (funding_signs_file st) =
       Some (json_dumps
              (AList.update symbol (snd (calculate_funding_diff h bpf hlf)) (funding_diff_signs st)))"
proof -
  from open_position_reaches_verdict [OF assms(1)] obtain order_size limit_price price_sign where
    out: "open_position h cfg a st symbol bpf hlf avail =
             open_verdict a
               (record_open_price_sign (record_funding_sign h st symbol bpf hlf) symbol price_sign)
               (open_orders (get_backpack_symbol h symbol) (get_hyperliquid_symbol h symbol)
                  (open_sides bpf hlf) order_size limit_price)
               (get_backpack_symbol h symbol) (get_hyperliquid_symbol h symbol)
               (snd (open_sides bpf hlf)) order_size bp_changed hl_changed"
    by auto
  show ?thesis
    unfolding out using assms(2)
    by (auto simp add: open_verdict_def open_orders_def record_open_price_sign_keeps
        record_funding_sign_signs record_funding_sign_file)
qed

theorem partial_open_unwinds_and_keeps_sign_witness:
  "legs (open_run [] hl_held) = Some (False, True) \<and>
   returned (open_run [] hl_held) = Returned_False \<and>
   (\<exists>o1 o2. calls (open_run [] hl_held) =
      [Place_order Backpack o1, Place_order Hyperliquid o2,
       Place_order Hyperliquid
         \<lparr>o_symbol = ''BTC'', o_side = (if o_side o2 = SELL then BUY else SELL),
          o_size = o_size o2, o_price = None, o_type = MARKET\<rparr>]) \<and>
   funding_diff_signs (engine_after (open_run [] hl_held)) = [(''BTC'', - 1)] \<and>
   files (engine_after (open_run [] hl_held)) sign_file = Some (json_dumps [(''BTC'', - 1)])"
proof -
  have l: "legs (open_position spec_helpers
        (example_config [btc_pair 1] [] default_open_conditions default_close_conditions)
        (example_answers [] [] Hl_exception [] hl_held)
        empty_engine ''BTC'' (2 / 10000) (5 / 100000) (Some 1)) = Some (False, True)"
    using open_run_hyperliquid_only by (simp add: open_run_def)
  have d: "False \<noteq> True"
    by simp
  show ?thesis
    using l partial_open_unwinds_and_keeps_sign [OF l d]
    by (simp add: open_run_def spec_helpers_def normalised_funding_diff_def empty_engine_def)
qed

text \<open>
  C3, as stated, fails at scenario 1 of the specification: both funding rates are positive,
  and both legs are opened with the side \<^verbatim>\<open>SELL\<close>; the open succeeds.
\<close>

theorem both_legs_sell:
  "open_sides (2 / 10000) (5 / 100000) = (SELL, SELL) \<and>
   returned (open_run bp_held hl_held) = Returned_True \<and>
   calls (open_run bp_held hl_held) =
     [Place_order Backpack
        \<lparr>o_symbol = ''BTC_USDC_PERP'', o_side = SELL, o_size = 1, o_price = None, o_type = MARKET\<rparr>,
      Place_order Hyperliquid
        \<lparr>o_symbol = ''BTC'', o_side = SELL, o_size = 1, o_price = Some (995 / 10), o_type = LIMIT\<rparr>]"
  using open_run_both
  by (simp add: open_sides_def)

text \<open>
  C3, amended. For every pair of legs opened for a symbol, each leg's side follows from the
  funding rate of its own venue: \<^verbatim>\<open>SELL\<close> when that rate is positive, \<^verbatim>\<open>BUY\<close> otherwise (zero
  included). The two sides are opposite exactly when one of the two rates is positive and
  the other is not.
\<close>

theorem open_sides_from_own_funding:
  assumes "calls (open_position h cfg a st symbol bpf hlf avail) =
             Place_order v1 o1 # Place_order v2 o2 # rest"
  shows "v1 = Backpack \<and> v2 = Hyperliquid \<and>
         o_side o1 = (if bpf > 0 then SELL else BUY) \<and>
         o_side o2 = (if hlf > 0 then SELL else BUY) \<and>
         (o_side o1 \<noteq> o_side o2) = ((bpf > 0) \<noteq> (hlf > 0))"
  using assms open_position_calls [of h cfg a st symbol bpf hlf avail]
  by (auto simp add: open_orders_def open_sides_def)

theorem open_sides_from_own_funding_witness:
  "calls (open_run bp_held hl_held) =
     [Place_order Backpack
        \<lparr>o_symbol = ''BTC_USDC_PERP'', o_side = SELL, o_size = 1, o_price = None, o_type = MARKET\<rparr>,
      Place_order Hyperliquid
        \<lparr>o_symbol = ''BTC'', o_side = SELL, o_size = 1, o_price = Some (995 / 10), o_type = LIMIT\<rparr>] \<and>
   (SELL \<noteq> SELL) = (((2 / 10000 :: real) > 0) \<noteq> ((5 / 100000 :: real) > 0))"
proof -
  have c: "calls (open_position spec_helpers
        (example_config [btc_pair 1] [] default_open_conditions default_close_conditions)
        (example_answers [] [] Hl_exception bp_held hl_held)
        empty_engine ''BTC'' (2 / 10000) (5 / 100000) (Some 1)) =
      Place_order Backpack
        \<lparr>o_symbol = ''BTC_USDC_PERP'', o_side = SELL, o_size = 1, o_price = None, o_type = MARKET\<rparr>
      # Place_order Hyperliquid
        \<lparr>o_symbol = ''BTC'', o_side = SELL, o_size = 1, o_price = Some (995 / 10), o_type = LIMIT\<rparr>
      # []"
    using open_run_both by (simp add: open_run_def)
  show ?thesis
    using c open_sides_from_own_funding [OF c]
    by (simp add: open_run_def)
qed

text \<open>
  The funding difference that the evaluator uses and the sign that the executor stores come
  from the same helper, called with the raw Hyperliquid rate by the evaluator (line 545) and
  with the rate already multiplied by 8 by the executor (line 1090, on the candidate's
  \<^verbatim>\<open>hl_funding\<close>, line 631). Whatever the helper computes, the two uses cannot both be
  normalised: for a Backpack rate of 10, the evaluator at the raw rate 8 and the executor at
  the raw rate 1 read the same value of the helper, where normalisation asks for the signs
  of \<open>10 - 8 * 8\<close> and of \<open>10 - 8 * 1\<close>.
\<close>

lemma funding_sites_disagree:
  "\<not> (snd (calculate_funding_diff h 10 8) = sign_of (10 - 8 * 8) \<and>
      snd (calculate_funding_diff h 10 (1 * 8)) = sign_of (10 - 8 * 1))"
  by (simp add: sign_of_def)

text \<open>
  With a helper that normalises, as the specification has it, the sign stored by an open
  that gets as far as recording it is the sign of the Backpack rate minus 64 times the raw
  Hyperliquid rate.
\<close>

lemma stored_sign_of_candidate:
  assumes "calculate_funding_diff h = normalised_funding_diff"
    and "open_prepare h cfg a st symbol bpf (raw_hl_funding * 8) avail
           = Inr (st2, tpc, order_size, hl_p)"
  shows "map_of (funding_diff_signs st2) symbol = Some (sign_of (bpf - raw_hl_funding * 64))"
proof -
  from open_prepare_state [OF assms(2)] obtain s where
    "st2 = record_open_price_sign (record_funding_sign h st symbol bpf (raw_hl_funding * 8)) symbol s" ..
  then show ?thesis
    by (simp add: record_open_price_sign_keeps record_funding_sign_signs assms(1)
        normalised_funding_diff_def sign_of_def update_conv' Let_def)
qed

text \<open>
  C4 fails on the code at scenario 1 of the specification. The evaluator emits the candidate
  with the normalised funding difference 0.00015, of sign 1, and hands on the normalised
  Hyperliquid rate 0.00005; the open of that candidate stores the sign \<open>-1\<close>, the sign of
  \<open>0.0002 - 8 * 0.00005\<close>.
\<close>

theorem open_stores_sign_of_twice_normalised_rate:
  "collect_arbitrage_opportunity spec_helpers
     (example_config [btc_pair 1] [] default_open_conditions default_close_conditions)
     scenario1_market empty_engine ''BTC'' [] [] [] []
   = (empty_engine, [scenario1_candidate 1], []) \<and>
   sign_of (oc_funding_diff (scenario1_candidate 1)) = 1 \<and>
   oc_bp_funding (scenario1_candidate 1) = 2 / 10000 \<and>
   oc_hl_funding (scenario1_candidate 1) = 5 / 100000 \<and>
   returned (open_run bp_held hl_held) = Returned_True \<and>
   funding_diff_signs (engine_after (open_run bp_held hl_held)) = [(''BTC'', - 1)]"
  using open_run_both
  by (simp add: evaluate_open inputs)

section \<open>Properties of \<^verbatim>\<open>_close_position\<close>\<close>

lemmas run_close =
  close_run_def close_position_def close_prepare_def close_dispatch_def close_orders_def
  clear_funding_sign_def position_closed_def find_position_def save_funding_diff_signs_def
  save_funding_diff_signs_ops_def run_file_ops_def get_or_def

lemmas evaluate_close =
  check_close_conditions_without_execution_def funding_sign_changed_def record_price_sign_def
  close_funding_condition_met_def close_price_condition_met_def should_close_def

text \<open>
  Scenario 4 reaches the executor: the evaluator emits the close candidate, for the reason
  of a reversed funding sign.
\<close>

lemma scenario4_close_candidate:
  "collect_arbitrage_opportunity spec_helpers scenario4_config scenario4_market held_engine
     ''BTC'' [] [] bp_held hl_held
   = (held_engine, [],
      [\<lparr>cl_symbol = ''BTC'', cl_position = btc_position_pair, cl_reason = Funding_sign_reversed\<rparr>])"
  by (simp add: evaluate_open evaluate_close inputs)

text \<open>
  In \<^verbatim>\<open>arbitrage_engine.py\<close>, where \<^verbatim>\<open>tick_size\<close> and \<^verbatim>\<open>price_precision\<close> are unbound, every
  close returns \<^verbatim>\<open>False\<close> without an order and without a change of the state.
\<close>

lemma close_position_this_module:
  "close_position this_module a st symbol pos =
     \<lparr>returned = Returned_False, engine_after = st, calls = [], legs = None\<rparr>"
  by (simp add: close_position_def close_prepare_def this_module_def
      split: py.splits option.splits)

text \<open>
  C2 fails on the code at scenario 4 of the specification: with a position on both venues
  and both positions gone after the settlement delay, the close places no order, returns
  \<^verbatim>\<open>False\<close> and leaves the symbol's entry in the sign store, because line 1434 raises
  \<^verbatim>\<open>NameError\<close>. Were the two names bound (here to 0.1 and 1), the same close would place the
  two closing orders, return \<^verbatim>\<open>True\<close>, remove the entry and persist the empty map, as the
  claim says.
\<close>

theorem close_scenario_places_no_order:
  \<open>close_run this_module bp_held hl_held
     = \<lparr>returned = Returned_False, engine_after = held_engine, calls = [], legs = None\<rparr> \<and>
   funding_diff_signs held_engine = [(''BTC'', 1)] \<and>
   returned (close_run \<lparr>tick_size = Some (1 / 10), price_precision = Some 1\<rparr> bp_held hl_held)
     = Returned_True \<and>
   calls (close_run \<lparr>tick_size = Some (1 / 10), price_precision = Some 1\<rparr> bp_held hl_held)
     = [Place_order Backpack
          \<lparr>o_symbol = ''BTC_USDC_PERP'', o_side = BUY, o_size = 1, o_price = None, o_type = MARKET\<rparr>,
        Place_order Hyperliquid
          \<lparr>o_symbol = ''BTC'', o_side = SELL, o_size = 1, o_price = None, o_type = MARKET\<rparr>] \<and>
   funding_diff_signs
     (engine_after (close_run \<lparr>tick_size = Some (1 / 10), price_precision = Some 1\<rparr> bp_held hl_held))
     = [] \<and>
   files
     (engine_after (close_run \<lparr>tick_size = Some (1 / 10), price_precision = Some 1\<rparr> bp_held hl_held))
     sign_file = Some ''{}''\<close>
  by (simp add: run_close inputs this_module_def json_text)

text \<open>
  C10. For every close in which the position query before the orders finds no position for
  the symbol on at least one of the two venues, the function returns \<^verbatim>\<open>False\<close>, has placed no
  order on either venue, and leaves the engine's state, the sign store in memory and on
  file included, as it was. This holds whatever the module binds \<^verbatim>\<open>tick_size\<close> and
  \<^verbatim>\<open>price_precision\<close> to.
\<close>

theorem close_without_position:
  assumes "a_pre_bp_positions a = Ok pre_bp_positions"
    and "a_pre_hl_positions a = Ok pre_hl_positions"
    and "find_position pre_bp_positions (bp_symbol pos) = None \<or>
         find_position pre_hl_positions (hl_symbol pos) = None"
  shows "returned (close_position g a st symbol pos) = Returned_False \<and>
         calls (close_position g a st symbol pos) = [] \<and>
         engine_after (close_position g a st symbol pos) = st"
proof -
  have "close_prepare g a pos = None"
    using assms by (auto simp add: close_prepare_def split: py.splits option.splits)
  then show ?thesis
    by (simp add: close_position_def)
qed

theorem close_without_position_witness:
  "a_pre_bp_positions (example_answers [] hl_held (Hl_dict True None) [] []) = Ok [] \<and>
   a_pre_hl_positions (example_answers [] hl_held (Hl_dict True None) [] []) = Ok hl_held \<and>
   find_position [] (bp_symbol btc_position_pair) = None \<and>
   returned (close_run \<lparr>tick_size = Some (1 / 10), price_precision = Some 1\<rparr> [] hl_held)
     = Returned_False \<and>
   calls (close_run \<lparr>tick_size = Some (1 / 10), price_precision = Some 1\<rparr> [] hl_held) = [] \<and>
   engine_after (close_run \<lparr>tick_size = Some (1 / 10), price_precision = Some 1\<rparr> [] hl_held)
     = held_engine"
proof -
  let ?a = "example_answers [] hl_held (Hl_dict True None) [] []"
  have bp: "a_pre_bp_positions ?a = Ok []"
    by (simp add: example_answers_def)
  have hl: "a_pre_hl_positions ?a = Ok hl_held"
    by (simp add: example_answers_def)
  have none: "find_position [] (bp_symbol btc_position_pair) = None"
    by (simp add: find_position_def)
  then have either: "find_position [] (bp_symbol btc_position_pair) = None \<or>
      find_position hl_held (hl_symbol btc_position_pair) = None"
    by simp
  show ?thesis
    using bp hl none
      close_without_position [OF bp hl either,
        of "\<lparr>tick_size = Some (1 / 10), price_precision = Some 1\<rparr>" held_engine "''BTC''"]
    by (simp add: close_run_def)
qed

end
